theory Spec2Isabelle
  imports Main "HOL-Library.Sublist"
begin

section \<open>The operation execution core of the driver\<close>

text \<open>
  A shallow embedding of \<^verbatim>\<open>executeOperation\<close>, \<^verbatim>\<open>executeWithServerSelection\<close> and its
  inner \<^verbatim>\<open>retryOperation\<close>. The collaborators (topology, operation, session) are records
  of their flags; what they answer when called is a function of the number of the call,
  so that every deterministic environment is one choice of these functions. A collaborator
  that takes a callback either throws before calling it or calls it once, within the call.
  Mutation is explicit: the session is passed in and returned, everything else that
  changes lives in the \<open>world\<close>, together with the trace of the calls made.
\<close>

subsection \<open>Data\<close>

datatype aspect =
    READ_OPERATION
  | WRITE_OPERATION
  | RETRYABLE
  | CURSOR_CREATING
  | CURSOR_ITERATING

datatype readPreferenceMode = primary | primaryPreferred | secondary | secondaryPreferred | nearest

fun mode_name :: "readPreferenceMode \<Rightarrow> string" where
  "mode_name primary = ''primary''"
| "mode_name primaryPreferred = ''primaryPreferred''"
| "mode_name secondary = ''secondary''"
| "mode_name secondaryPreferred = ''secondaryPreferred''"
| "mode_name nearest = ''nearest''"

text \<open>The error classes the core creates or tests with \<^verbatim>\<open>instanceof\<close>; \<open>JsError\<close> is any
  thrown value that is not a \<^verbatim>\<open>MongoError\<close> (a \<^verbatim>\<open>TypeError\<close>, say).\<close>

datatype error_class =
    MongoError
  | MongoServerError
  | MongoNetworkError
  | MongoNetworkTimeoutError
  | MongoExpiredSessionError
  | MongoCompatibilityError
  | MongoTransactionError
  | MongoRuntimeError
  | MongoUnexpectedServerResponseError
  | JsError

datatype mongo_error =
  Error (error_class: error_class) (message: string) (code: "int option")
        (errmsg: "string option") (errorLabels: "string list")
        (originalError: "mongo_error option")

definition new_error :: "error_class \<Rightarrow> string \<Rightarrow> mongo_error" where
  "new_error cls msg = Error cls msg None None [] None"

definition instanceof_MongoError :: "mongo_error \<Rightarrow> bool" where
  "instanceof_MongoError e = (error_class e \<noteq> JsError)"

definition instanceof_MongoNetworkError :: "mongo_error \<Rightarrow> bool" where
  "instanceof_MongoNetworkError e =
     (error_class e = MongoNetworkError \<or> error_class e = MongoNetworkTimeoutError)"

datatype document = Document "(string \<times> int) list"

record server =
  address :: string
  description_maxWireVersion :: nat

datatype owner_tag = Symbol nat | Object nat

record clientSession =
  owner :: "owner_tag option"
  explicit :: bool
  hasEnded :: bool
  snapshotEnabled :: bool
  txnNumber :: nat
  isPinned :: bool
  inTransaction :: bool
  isCommitted :: bool
  endSession_error :: "mongo_error option"

datatype selector =
    By_readPreference readPreferenceMode
  | By_sameServer "server option"
  | By_secondaryWritable "nat option" readPreferenceMode

datatype selection =
    Select_throws mongo_error
  | Select_calls_back "mongo_error option" "server option"

datatype execution =
    Execute_throws mongo_error
  | Execute_calls_back "mongo_error option" "document option"

datatype event =
    Ev_selectServer selector
  | Ev_startSession owner_tag
  | Ev_unpin bool
  | Ev_incrementTransactionNumber
  | Ev_execute server "clientSession option"
  | Ev_endSession

record topology =
  shouldCheckForSessionSupport :: "nat \<Rightarrow> bool"
  hasSessionSupport :: bool
  supportsSnapshotReads :: bool
  commonWireVersion :: "nat option"
  retryReads :: "bool option"
  retryWrites :: "bool option"
  selectServer_answers :: "nat \<Rightarrow> selection"
  startSession_endSession_error :: "mongo_error option"

record operation =
  aspects :: "aspect set"
  readPreference :: "readPreferenceMode option"
  session :: "clientSession option"
  server :: "server option"
  bypassPinningCheck :: bool
  canRetryRead :: bool
  canRetryWrite :: bool
  trySecondaryWrite :: bool
  execute_answers :: "nat \<Rightarrow> execution"

record world =
  sessionSupportChecks :: nat
  serverSelections :: nat
  executions :: nat
  symbols :: nat
  options_willRetryWrite :: bool
  trace :: "event list"

text \<open>
  The helpers imported from \<^verbatim>\<open>../error\<close> and \<^verbatim>\<open>../utils\<close> whose bodies are not part of
  the sources are parameters of the model.
\<close>

record deps =
  isRetryableWriteError :: "mongo_error \<Rightarrow> nat \<Rightarrow> bool"
  isRetryableReadError :: "mongo_error \<Rightarrow> bool"
  supportsRetryableWrites :: "server option \<Rightarrow> bool"

subsection \<open>Constants\<close>

definition SUPPORTS_OP_MSG :: nat where
  "SUPPORTS_OP_MSG = 6"

definition UNKNOWN :: nat where
  "UNKNOWN = 0"

text \<open>Modelled from the spec: \<^verbatim>\<open>MONGODB_ERROR_CODES.IllegalOperation\<close> is declared in
  \<^verbatim>\<open>../error\<close>, which is not part of the sources; the spec's scenario gives the legacy
  refusal as \<^verbatim>\<open>ServerError{code=20, ...}\<close>.\<close>

definition IllegalOperation :: int where
  "IllegalOperation = 20"

definition MMAPv1_RETRY_WRITES_ERROR_CODE :: int where
  "MMAPv1_RETRY_WRITES_ERROR_CODE = IllegalOperation"

definition MMAPv1_RETRY_WRITES_ERROR_MESSAGE :: string where
  "MMAPv1_RETRY_WRITES_ERROR_MESSAGE =
     ''This MongoDB deployment does not support retryable writes. Please add retryWrites=false to your connection string.''"

subsection \<open>The collaborators' operations\<close>

definition hasAspect :: "operation \<Rightarrow> aspect \<Rightarrow> bool" where
  "hasAspect oper a = (a \<in> aspects oper)"

text \<open>\<^verbatim>\<open>/Transaction numbers/.test(s)\<close>: the pattern has no metacharacter, so the test is
  whether the text contains it. An \<^verbatim>\<open>undefined\<close> argument is tested as its string.\<close>

fun regex_test :: "string \<Rightarrow> string \<Rightarrow> bool" where
  "regex_test pat [] = (pat = [])"
| "regex_test pat (c # cs) = (prefix pat (c # cs) \<or> regex_test pat cs)"

definition test_errmsg :: "string \<Rightarrow> string option \<Rightarrow> bool" where
  "test_errmsg pat m = regex_test pat (case m of None \<Rightarrow> ''undefined'' | Some s \<Rightarrow> s)"

text \<open>Modelled from the spec: \<^verbatim>\<open>maxWireVersion\<close> of \<^verbatim>\<open>../utils\<close> is not part of the
  sources. It reads the max wire version of the server's description; for an absent server
  nothing is known, which is the wire version \<open>UNKNOWN\<close>.\<close>

definition maxWireVersion :: "server option \<Rightarrow> nat" where
  "maxWireVersion srv = (case srv of None \<Rightarrow> UNKNOWN | Some s \<Rightarrow> description_maxWireVersion s)"

definition supportsRetryableReads :: "server option \<Rightarrow> bool" where
  "supportsRetryableReads srv = (maxWireVersion srv \<ge> 6)"

text \<open>Modelled from the spec: the session's methods are not part of the sources. A session
  carries a transaction number that \<^verbatim>\<open>incrementTransactionNumber\<close> raises by one, a pin that
  \<^verbatim>\<open>unpin\<close> releases, and an \<open>ended\<close> flag that \<^verbatim>\<open>endSession\<close> sets.\<close>

definition incrementTransactionNumber :: "clientSession \<Rightarrow> world \<Rightarrow> clientSession \<times> world" where
  "incrementTransactionNumber s w =
     (s\<lparr>txnNumber := Suc (txnNumber s)\<rparr>, w\<lparr>trace := trace w @ [Ev_incrementTransactionNumber]\<rparr>)"

definition unpin :: "bool \<Rightarrow> clientSession \<Rightarrow> world \<Rightarrow> clientSession \<times> world" where
  "unpin force s w = (s\<lparr>isPinned := False\<rparr>, w\<lparr>trace := trace w @ [Ev_unpin force]\<rparr>)"

definition endSession :: "clientSession \<Rightarrow> world \<Rightarrow> mongo_error option \<times> clientSession \<times> world" where
  "endSession s w =
     (endSession_error s, s\<lparr>hasEnded := True\<rparr>, w\<lparr>trace := trace w @ [Ev_endSession]\<rparr>)"

text \<open>Modelled from the spec: \<^verbatim>\<open>Topology.startSession\<close> is not part of the sources. It
  mints a session tagged with the owner it is given: not ended, outside any transaction,
  unpinned, its transaction number at the start.\<close>

definition startSession :: "topology \<Rightarrow> owner_tag \<Rightarrow> world \<Rightarrow> clientSession \<times> world" where
  "startSession topo ow w =
     (\<lparr>owner = Some ow, explicit = False, hasEnded = False, snapshotEnabled = False,
       txnNumber = 0, isPinned = False, inTransaction = False, isCommitted = False,
       endSession_error = startSession_endSession_error topo\<rparr>,
      w\<lparr>trace := trace w @ [Ev_startSession ow]\<rparr>)"

definition fresh_Symbol :: "world \<Rightarrow> owner_tag \<times> world" where
  "fresh_Symbol w = (Symbol (symbols w), w\<lparr>symbols := Suc (symbols w)\<rparr>)"

definition checkForSessionSupport :: "topology \<Rightarrow> world \<Rightarrow> bool \<times> world" where
  "checkForSessionSupport topo w =
     (shouldCheckForSessionSupport topo (sessionSupportChecks w),
      w\<lparr>sessionSupportChecks := Suc (sessionSupportChecks w)\<rparr>)"

definition selectServer :: "topology \<Rightarrow> selector \<Rightarrow> world \<Rightarrow> selection \<times> world" where
  "selectServer topo sel w =
     (selectServer_answers topo (serverSelections w),
      w\<lparr>serverSelections := Suc (serverSelections w), trace := trace w @ [Ev_selectServer sel]\<rparr>)"

definition execute :: "operation \<Rightarrow> server \<Rightarrow> clientSession option \<Rightarrow> world \<Rightarrow> execution \<times> world" where
  "execute oper srv sess w =
     (execute_answers oper (executions w),
      w\<lparr>executions := Suc (executions w), trace := trace w @ [Ev_execute srv sess]\<rparr>)"

subsection \<open>The inner pipeline\<close>

text \<open>What a call of the pipeline did with the callback it was given: called it once with
  an error and a result (either may be absent), or threw before calling it.\<close>

datatype completion =
    Callback "mongo_error option" "document option"
  | Throws mongo_error

definition completion_of :: "execution \<Rightarrow> completion" where
  "completion_of a =
     (case a of Execute_throws x \<Rightarrow> Throws x | Execute_calls_back err res \<Rightarrow> Callback err res)"

text \<open>\<^verbatim>\<open>operation.execute(server, session, callback)\<close> with the pipeline's own callback:
  whatever the attempt gives goes to the callback as it is.\<close>

definition attempt :: "operation \<Rightarrow> server \<Rightarrow> clientSession option \<Rightarrow> world
    \<Rightarrow> completion \<times> clientSession option \<times> world" where
  "attempt oper srv sess w =
     (case execute oper srv sess w of (a, w') \<Rightarrow> (completion_of a, sess, w'))"

definition retryOperation :: "deps \<Rightarrow> topology \<Rightarrow> clientSession \<Rightarrow> operation \<Rightarrow> selector
    \<Rightarrow> mongo_error \<Rightarrow> nat \<Rightarrow> world \<Rightarrow> completion \<times> clientSession option \<times> world" where
  "retryOperation d topo sess oper sel originalErr maxWV w =
     (let isWriteOperation = hasAspect oper WRITE_OPERATION;
          isReadOperation = hasAspect oper READ_OPERATION
      in if isWriteOperation \<and> \<not> isRetryableWriteError d originalErr maxWV
         then (Callback (Some originalErr) None, Some sess, w)
         else if isReadOperation \<and> \<not> isRetryableReadError d originalErr
         then (Callback (Some originalErr) None, Some sess, w)
         else if isWriteOperation
                 \<and> code originalErr = Some MMAPv1_RETRY_WRITES_ERROR_CODE
                 \<and> test_errmsg ''Transaction numbers'' (errmsg originalErr)
         then (Callback (Some (Error MongoServerError MMAPv1_RETRY_WRITES_ERROR_MESSAGE None
                                 (Some MMAPv1_RETRY_WRITES_ERROR_MESSAGE) [] (Some originalErr)))
                        None, Some sess, w)
         else
           (case (if instanceof_MongoNetworkError originalErr \<and> isPinned sess
                     \<and> \<not> inTransaction sess \<and> hasAspect oper CURSOR_CREATING
                  then unpin True sess w else (sess, w)) of
              (sess1, w1) \<Rightarrow>
                (case selectServer topo sel w1 of
                   (Select_throws x, w2) \<Rightarrow> (Throws x, Some sess1, w2)
                 | (Select_calls_back err srv, w2) \<Rightarrow>
                     if err = None \<and> hasAspect oper READ_OPERATION \<and> \<not> supportsRetryableReads srv
                     then (Callback (Some (new_error MongoUnexpectedServerResponseError
                             ''Selected server does not support retryable reads'')) None, Some sess1, w2)
                     else if err = None \<and> hasAspect oper WRITE_OPERATION
                             \<and> \<not> supportsRetryableWrites d srv
                     then (Callback (Some (new_error MongoUnexpectedServerResponseError
                             ''Selected server does not support retryable writes'')) None, Some sess1, w2)
                     else (case (err, srv) of
                             (None, Some s) \<Rightarrow> attempt oper s (Some sess1) w2
                           | (Some e, _) \<Rightarrow> (Callback (Some e) None, Some sess1, w2)
                           | (None, None) \<Rightarrow>
                               (Callback (Some (new_error MongoUnexpectedServerResponseError
                                  ''Server selection failed without error'')) None, Some sess1, w2)))))"

definition willRetryRead :: "topology \<Rightarrow> bool \<Rightarrow> server \<Rightarrow> operation \<Rightarrow> bool" where
  "willRetryRead topo inTxn srv oper =
     (retryReads topo \<noteq> Some False \<and> \<not> inTxn \<and> supportsRetryableReads (Some srv)
      \<and> canRetryRead oper)"

definition willRetryWrite :: "deps \<Rightarrow> topology \<Rightarrow> bool \<Rightarrow> server \<Rightarrow> operation \<Rightarrow> bool" where
  "willRetryWrite d topo inTxn srv oper =
     (retryWrites topo = Some True \<and> \<not> inTxn \<and> supportsRetryableWrites d (Some srv)
      \<and> canRetryWrite oper)"

definition effectiveReadPreference :: "operation \<Rightarrow> readPreferenceMode" where
  "effectiveReadPreference oper = (case readPreference oper of None \<Rightarrow> primary | Some p \<Rightarrow> p)"

definition transaction_readPreference_error :: "readPreferenceMode \<Rightarrow> mongo_error" where
  "transaction_readPreference_error rp =
     new_error MongoTransactionError
       (''Read preference in a transaction must be primary, not: '' @ mode_name rp)"

definition choose_selector :: "topology \<Rightarrow> operation \<Rightarrow> readPreferenceMode \<Rightarrow> selector" where
  "choose_selector topo oper rp =
     (if hasAspect oper CURSOR_ITERATING then By_sameServer (server oper)
      else if trySecondaryWrite oper then By_secondaryWritable (commonWireVersion topo) rp
      else By_readPreference rp)"

text \<open>Lines 273 to 289: the first attempt of an operation for which a retry is armed;
  \<open>retryWrite\<close> is the source's \<^verbatim>\<open>hasWriteAspect && willRetryWrite\<close>.\<close>

definition armedAttempt :: "deps \<Rightarrow> topology \<Rightarrow> clientSession \<Rightarrow> operation \<Rightarrow> selector
    \<Rightarrow> server \<Rightarrow> bool \<Rightarrow> world \<Rightarrow> completion \<times> clientSession option \<times> world" where
  "armedAttempt d topo s oper sel srv retryWrite w =
     (case (if retryWrite
            then incrementTransactionNumber s (w\<lparr>options_willRetryWrite := True\<rparr>)
            else (s, w)) of
        (s1, w1) \<Rightarrow>
          (let knownMaxWireVersion = maxWireVersion (Some srv)
           in case execute oper srv (Some s1) w1 of
                (Execute_throws x, w2) \<Rightarrow> (Throws x, Some s1, w2)
              | (Execute_calls_back (Some e) res, w2) \<Rightarrow>
                  if instanceof_MongoError e
                  then retryOperation d topo s1 oper sel e knownMaxWireVersion w2
                  else (Callback (Some e) None, Some s1, w2)
              | (Execute_calls_back None res, w2) \<Rightarrow> (Callback None res, Some s1, w2)))"

text \<open>Lines 256 to 293: what follows a first selection that gave a server.\<close>

definition firstAttempt :: "deps \<Rightarrow> topology \<Rightarrow> clientSession option \<Rightarrow> operation \<Rightarrow> selector
    \<Rightarrow> bool \<Rightarrow> server \<Rightarrow> world \<Rightarrow> completion \<times> clientSession option \<times> world" where
  "firstAttempt d topo sess oper sel inTxn srv w =
     (case sess of
        Some s \<Rightarrow>
          if hasAspect oper RETRYABLE then
            (let hasReadAspect = hasAspect oper READ_OPERATION;
                 hasWriteAspect = hasAspect oper WRITE_OPERATION
             in if (hasReadAspect \<and> willRetryRead topo inTxn srv oper)
                   \<or> (hasWriteAspect \<and> willRetryWrite d topo inTxn srv oper)
                then armedAttempt d topo s oper sel srv
                       (hasWriteAspect \<and> willRetryWrite d topo inTxn srv oper) w
                else attempt oper srv sess w)
          else attempt oper srv sess w
      | None \<Rightarrow> attempt oper srv sess w)"

definition executeWithServerSelection :: "deps \<Rightarrow> topology \<Rightarrow> clientSession option \<Rightarrow> operation
    \<Rightarrow> world \<Rightarrow> completion \<times> clientSession option \<times> world" where
  "executeWithServerSelection d topo sess oper w =
     (let rp = effectiveReadPreference oper;
          inTxn = (case sess of None \<Rightarrow> False | Some s \<Rightarrow> inTransaction s)
      in if inTxn \<and> rp \<noteq> primary
         then (Callback (Some (transaction_readPreference_error rp)) None, sess, w)
         else
           (case (case sess of
                    None \<Rightarrow> (None, w)
                  | Some s \<Rightarrow>
                      if isPinned s \<and> isCommitted s \<and> \<not> bypassPinningCheck oper
                      then (case unpin False s w of (s', w') \<Rightarrow> (Some s', w'))
                      else (Some s, w)) of
              (sess1, w1) \<Rightarrow>
                (let sel = choose_selector topo oper rp
                 in if rp \<noteq> primary \<and> (case sess1 of None \<Rightarrow> False | Some s \<Rightarrow> inTransaction s)
                    then (Callback (Some (transaction_readPreference_error rp)) None, sess1, w1)
                    else
                      (case selectServer topo sel w1 of
                         (Select_throws x, w2) \<Rightarrow> (Throws x, sess1, w2)
                       | (Select_calls_back (Some e) srv, w2) \<Rightarrow> (Callback (Some e) None, sess1, w2)
                       | (Select_calls_back None None, w2) \<Rightarrow> (Callback None None, sess1, w2)
                       | (Select_calls_back None (Some srv), w2) \<Rightarrow>
                           firstAttempt d topo sess1 oper sel inTxn srv w2))))"

subsection \<open>The coordinator\<close>

text \<open>What the caller of \<^verbatim>\<open>executeOperation\<close> observes: its callback called once (its
  promise settled), never called, or an exception that left the function.\<close>

datatype outcome =
    Callback_invoked "mongo_error option" "document option"
  | Callback_not_invoked
  | Uncaught mongo_error

text \<open>Modelled from the spec: \<^verbatim>\<open>maybePromise\<close> of \<^verbatim>\<open>../utils\<close> is not part of the sources.
  The \<^verbatim>\<open>callback\<close> of lines 81 to 124 is the one it hands to its wrapper, not the caller's
  own. The contract of section 4.1 is \<^verbatim>\<open>execute(topology, operation) -> result | error\<close>:
  the caller receives the error alone when there is one, and the result otherwise.\<close>

definition maybePromise_callback :: "mongo_error option \<Rightarrow> document option \<Rightarrow> outcome" where
  "maybePromise_callback err res =
     (case err of Some e \<Rightarrow> Callback_invoked (Some e) None | None \<Rightarrow> Callback_invoked None res)"

text \<open>Lines 92 to 107: the session the pipeline will run with and the owner value remembered
  for teardown, or the error the callback is called with at once.\<close>

definition acquireSession :: "topology \<Rightarrow> operation \<Rightarrow> world
    \<Rightarrow> mongo_error + (clientSession option \<times> owner_tag option \<times> world)" where
  "acquireSession topo oper w =
     (if hasSessionSupport topo then
        (case session oper of
           None \<Rightarrow>
             (case fresh_Symbol w of
                (ow, w1) \<Rightarrow> (case startSession topo ow w1 of
                               (s, w2) \<Rightarrow> Inr (Some s, Some ow, w2)))
         | Some s \<Rightarrow>
             if hasEnded s
             then Inl (new_error MongoExpiredSessionError ''Use of expired sessions is not permitted'')
             else if snapshotEnabled s \<and> \<not> supportsSnapshotReads topo
             then Inl (new_error MongoCompatibilityError ''Snapshot reads require MongoDB 5.0 or later'')
             else Inr (Some s, None, w))
      else
        (case session oper of
           Some s \<Rightarrow> Inl (new_error MongoCompatibilityError ''Current topology does not support sessions'')
         | None \<Rightarrow> Inr (None, None, w)))"

text \<open>The test both exits make before ending the session: the session's owner tag is
  present and is the owner value this execution remembered.\<close>

definition ownedHere :: "clientSession option \<Rightarrow> owner_tag option \<Rightarrow> bool" where
  "ownedHere sess ow = (case sess of None \<Rightarrow> False | Some s \<Rightarrow> owner s \<noteq> None \<and> owner s = ow)"

definition teardown :: "owner_tag option \<Rightarrow> completion \<times> clientSession option \<times> world
    \<Rightarrow> outcome \<times> clientSession option \<times> world" where
  "teardown ow r =
     (case r of
        (Callback err res, sess, w) \<Rightarrow>
          (case sess of
             Some s \<Rightarrow>
               if ownedHere sess ow
               then (case endSession s w of
                       (endSessionError, s', w') \<Rightarrow>
                         (maybePromise_callback
                            (case endSessionError of Some e \<Rightarrow> Some e | None \<Rightarrow> err) res,
                          Some s', w'))
               else (maybePromise_callback err res, sess, w)
           | None \<Rightarrow> (maybePromise_callback err res, sess, w))
      | (Throws x, sess, w) \<Rightarrow>
          (case sess of
             Some s \<Rightarrow>
               if ownedHere sess ow
               then (case endSession s w of (endSessionError, s', w') \<Rightarrow> (Callback_not_invoked, Some s', w'))
               else (Callback_not_invoked, sess, w)
           | None \<Rightarrow> (Callback_not_invoked, sess, w)))"

text \<open>The coordinator re-enters itself for as long as the topology asks for a check of
  session support and the selection made for it succeeds, which need not end: the first
  argument bounds the number of entries, and \<open>None\<close> is an execution that needs more.
  An \<open>operation\<close> is an \<^verbatim>\<open>AbstractOperation\<close> by its type, so the guard of line 76 has
  no branch here.\<close>

fun executeOperation :: "nat \<Rightarrow> deps \<Rightarrow> topology \<Rightarrow> operation \<Rightarrow> world
    \<Rightarrow> (outcome \<times> clientSession option \<times> world) option" where
  "executeOperation 0 d topo oper w = None"
| "executeOperation (Suc fuel) d topo oper w =
     (case checkForSessionSupport topo w of
        (True, w1) \<Rightarrow>
          (case selectServer topo (By_readPreference primaryPreferred) w1 of
             (Select_throws x, w2) \<Rightarrow> Some (Uncaught x, session oper, w2)
           | (Select_calls_back (Some err) srv, w2) \<Rightarrow>
               Some (maybePromise_callback (Some err) None, session oper, w2)
           | (Select_calls_back None srv, w2) \<Rightarrow> executeOperation fuel d topo oper w2)
      | (False, w1) \<Rightarrow>
          (case acquireSession topo oper w1 of
             Inl err \<Rightarrow> Some (maybePromise_callback (Some err) None, session oper, w1)
           | Inr (sess, ow, w2) \<Rightarrow>
               Some (teardown ow (executeWithServerSelection d topo sess oper w2))))"

subsection \<open>Reading the trace\<close>

definition events_since :: "world \<Rightarrow> world \<Rightarrow> event list" where
  "events_since w w' = drop (length (trace w)) (trace w')"

fun is_execute :: "event \<Rightarrow> bool" where
  "is_execute (Ev_execute srv sess) = True"
| "is_execute _ = False"

fun is_startSession :: "event \<Rightarrow> bool" where
  "is_startSession (Ev_startSession ow) = True"
| "is_startSession _ = False"

text \<open>An event is consistent with the transaction number \<open>n\<close> when it is not an attempt,
  or is an attempt made with a session whose transaction number is \<open>n\<close>.\<close>

fun attempted_with :: "nat \<Rightarrow> event \<Rightarrow> bool" where
  "attempted_with n (Ev_execute srv sess) = (case sess of None \<Rightarrow> False | Some s \<Rightarrow> txnNumber s = n)"
| "attempted_with n _ = True"

text \<open>The write retry is armed in an execution that starts in world \<open>w\<close>: the first
  selection gives a server without an error, and for that server the source's
  \<^verbatim>\<open>hasWriteAspect && willRetryWrite\<close> holds inside the branch for \<open>RETRYABLE\<close> operations
  with a session.\<close>

definition writeRetryArmed :: "deps \<Rightarrow> topology \<Rightarrow> clientSession \<Rightarrow> operation \<Rightarrow> world \<Rightarrow> bool" where
  "writeRetryArmed d topo s oper w =
     (case selectServer_answers topo (serverSelections w) of
        Select_calls_back None (Some srv) \<Rightarrow>
          hasAspect oper RETRYABLE \<and> hasAspect oper WRITE_OPERATION
          \<and> willRetryWrite d topo (inTransaction s) srv oper
      | _ \<Rightarrow> False)"

subsection \<open>Frame conditions\<close>

text \<open>Two sessions that differ at most in their pin, the second with transaction
  number \<open>n\<close>.\<close>

definition same_but_pin :: "nat \<Rightarrow> clientSession \<Rightarrow> clientSession \<Rightarrow> bool" where
  "same_but_pin n s s' \<longleftrightarrow>
     owner s' = owner s \<and> explicit s' = explicit s \<and> hasEnded s' = hasEnded s \<and>
     snapshotEnabled s' = snapshotEnabled s \<and> txnNumber s' = n \<and>
     inTransaction s' = inTransaction s \<and> isCommitted s' = isCommitted s \<and>
     endSession_error s' = endSession_error s"

definition same_counters :: "bool \<Rightarrow> world \<Rightarrow> world \<Rightarrow> bool" where
  "same_counters m w w' \<longleftrightarrow>
     sessionSupportChecks w' = sessionSupportChecks w \<and> symbols w' = symbols w \<and>
     options_willRetryWrite w' = m"

text \<open>Events of the pipeline: no session is started or ended, the transaction number
  is incremented \<open>k\<close> times, and every attempt is made with transaction number \<open>n\<close>.\<close>

definition quiet :: "nat \<Rightarrow> nat \<Rightarrow> event list \<Rightarrow> bool" where
  "quiet k n evs \<longleftrightarrow>
     count_list evs Ev_endSession = 0 \<and> filter is_startSession evs = [] \<and>
     count_list evs Ev_incrementTransactionNumber = k \<and>
     list_all (attempted_with n) evs"

subsection \<open>The life of the session around the pipeline\<close>

text \<open>What one execution adds to the trace and does to the session, when it minted a
  session with the owner \<open>Symbol n\<close> and when it did not.\<close>

definition lifecycle :: "operation \<Rightarrow> nat \<Rightarrow> bool \<Rightarrow> event list \<Rightarrow> clientSession option \<Rightarrow> bool" where
  "lifecycle oper n minted evs sess' \<longleftrightarrow>
     (if minted
      then session oper = None
           \<and> count_list evs Ev_endSession = 1
           \<and> filter is_startSession evs = [Ev_startSession (Symbol n)]
           \<and> map_option hasEnded sess' = Some True
           \<and> map_option owner sess' = Some (Some (Symbol n))
      else count_list evs Ev_endSession = 0
           \<and> filter is_startSession evs = []
           \<and> map_option hasEnded sess' = map_option hasEnded (session oper)
           \<and> map_option owner sess' = map_option owner (session oper))"

subsection \<open>The classifiers of the spec and the scenarios of its section 8\<close>

text \<open>Modelled from the spec: \<^verbatim>\<open>isRetryableWriteError\<close> and \<^verbatim>\<open>isRetryableReadError\<close> of
  \<^verbatim>\<open>../error\<close> are not part of the sources. Section 4.5: a write error is retryable if it
  carries the \<^verbatim>\<open>RetryableWriteError\<close> label, or is a network error, or, for a server
  whose snapshotted wire version is below \<open>SUPPORTS_OP_MSG\<close>, its code is in the legacy
  retryable set; a read error is retryable if it is a network error, a state-change error,
  or carries the label. The two sets of codes are not given and stay parameters.\<close>

definition spec_isRetryableWriteError :: "int set \<Rightarrow> mongo_error \<Rightarrow> nat \<Rightarrow> bool" where
  "spec_isRetryableWriteError legacy e mwv =
     (''RetryableWriteError'' \<in> set (errorLabels e) \<or> instanceof_MongoNetworkError e
      \<or> (mwv < SUPPORTS_OP_MSG \<and> (case code e of None \<Rightarrow> False | Some c \<Rightarrow> c \<in> legacy)))"

definition spec_isRetryableReadError :: "int set \<Rightarrow> mongo_error \<Rightarrow> bool" where
  "spec_isRetryableReadError stateChange e =
     (instanceof_MongoNetworkError e
      \<or> (case code e of None \<Rightarrow> False | Some c \<Rightarrow> c \<in> stateChange)
      \<or> ''RetryableWriteError'' \<in> set (errorLabels e))"

definition scenario_server :: server where
  "scenario_server = \<lparr>address = ''db1.example:27017'', description_maxWireVersion = 8\<rparr>"

definition other_server :: server where
  "other_server = \<lparr>address = ''db2.example:27017'', description_maxWireVersion = 8\<rparr>"

definition scenario_deps :: deps where
  "scenario_deps =
     \<lparr>isRetryableWriteError = spec_isRetryableWriteError {10107, 91},
      isRetryableReadError = spec_isRetryableReadError {10107, 91},
      supportsRetryableWrites = (\<lambda>srv. case srv of None \<Rightarrow> False | Some s \<Rightarrow> True)\<rparr>"

definition explicit_session :: clientSession where
  "explicit_session =
     \<lparr>owner = None, explicit = True, hasEnded = False, snapshotEnabled = False, txnNumber = 5,
      isPinned = False, inTransaction = False, isCommitted = False, endSession_error = None\<rparr>"

definition initial_world :: world where
  "initial_world =
     \<lparr>sessionSupportChecks = 0, serverSelections = 0, executions = 0, symbols = 0,
      options_willRetryWrite = False, trace = []\<rparr>"

definition ECONNRESET :: mongo_error where
  "ECONNRESET = new_error MongoNetworkError ''ECONNRESET''"

text \<open>Scenario 1: \<^verbatim>\<open>retryWrites=true\<close>, a retryable write; the first attempt fails with a
  network error, the second, on another server, succeeds.\<close>

definition retryWrites_topology :: topology where
  "retryWrites_topology =
     \<lparr>shouldCheckForSessionSupport = (\<lambda>n. False), hasSessionSupport = True,
      supportsSnapshotReads = True, commonWireVersion = Some 8, retryReads = None,
      retryWrites = Some True,
      selectServer_answers =
        (\<lambda>n. Select_calls_back None (Some (if n = 0 then scenario_server else other_server))),
      startSession_endSession_error = None\<rparr>"

definition write_result :: document where
  "write_result = Document [(''ok'', 1), (''n'', 1)]"

definition retryable_write :: operation where
  "retryable_write =
     \<lparr>aspects = {WRITE_OPERATION, RETRYABLE}, readPreference = None,
      session = Some explicit_session, server = None, bypassPinningCheck = False,
      canRetryRead = False, canRetryWrite = True, trySecondaryWrite = False,
      execute_answers =
        (\<lambda>n. if n = 0 then Execute_calls_back (Some ECONNRESET) None
             else Execute_calls_back None (Some write_result))\<rparr>"

text \<open>Scenario 5: the session is in a transaction and the read preference is
  \<^verbatim>\<open>secondary\<close>.\<close>

definition session_in_transaction :: clientSession where
  "session_in_transaction = explicit_session\<lparr>inTransaction := True\<rparr>"

definition secondary_read :: operation where
  "secondary_read =
     \<lparr>aspects = {READ_OPERATION, RETRYABLE}, readPreference = Some secondary,
      session = Some session_in_transaction, server = None, bypassPinningCheck = False,
      canRetryRead = True, canRetryWrite = False, trySecondaryWrite = False,
      execute_answers = (\<lambda>n. Execute_calls_back None (Some (Document [(''ok'', 1)])))\<rparr>"

text \<open>The world scenario 1 ends in.\<close>

definition scenario1_world :: world where
  "scenario1_world =
     \<lparr>sessionSupportChecks = 0, serverSelections = 2, executions = 2, symbols = 0,
      options_willRetryWrite = True,
      trace = [Ev_selectServer (By_readPreference primary), Ev_incrementTransactionNumber,
               Ev_execute scenario_server (Some (explicit_session\<lparr>txnNumber := 6\<rparr>)),
               Ev_selectServer (By_readPreference primary),
               Ev_execute other_server (Some (explicit_session\<lparr>txnNumber := 6\<rparr>))]\<rparr>"

text \<open>An explicit session that was ended, on a topology without session support and on one
  with it.\<close>

definition ended_session :: clientSession where
  "ended_session = explicit_session\<lparr>hasEnded := True\<rparr>"

definition topology_without_sessions :: topology where
  "topology_without_sessions = retryWrites_topology\<lparr>hasSessionSupport := False\<rparr>"

definition write_with_ended_session :: operation where
  "write_with_ended_session = retryable_write\<lparr>session := Some ended_session\<rparr>"

text \<open>The write of scenario 1 without a session of its own: the coordinator mints one.\<close>

definition implicit_write :: operation where
  "implicit_write = retryable_write\<lparr>session := None\<rparr>"

definition minted_session :: clientSession where
  "minted_session =
     \<lparr>owner = Some (Symbol 0), explicit = False, hasEnded = False, snapshotEnabled = False,
      txnNumber = 0, isPinned = False, inTransaction = False, isCommitted = False,
      endSession_error = None\<rparr>"

definition minted_world :: world where
  "minted_world =
     \<lparr>sessionSupportChecks = 1, serverSelections = 0, executions = 0, symbols = 1,
      options_willRetryWrite = False, trace = [Ev_startSession (Symbol 0)]\<rparr>"

definition implicit_run_world :: world where
  "implicit_run_world =
     \<lparr>sessionSupportChecks = 1, serverSelections = 2, executions = 2, symbols = 1,
      options_willRetryWrite = True,
      trace = [Ev_startSession (Symbol 0), Ev_selectServer (By_readPreference primary),
               Ev_incrementTransactionNumber,
               Ev_execute scenario_server (Some (minted_session\<lparr>txnNumber := 1\<rparr>)),
               Ev_selectServer (By_readPreference primary),
               Ev_execute other_server (Some (minted_session\<lparr>txnNumber := 1\<rparr>)),
               Ev_endSession]\<rparr>"

text \<open>A topology on which retries are off and ending the minted session fails, and the
  world in which the only attempt has failed with a network error.\<close>

definition endSessions_failure :: mongo_error where
  "endSessions_failure = new_error MongoNetworkError ''endSessions failed''"

definition failing_endSession_topology :: topology where
  "failing_endSession_topology =
     retryWrites_topology\<lparr>retryWrites := None,
       startSession_endSession_error := Some endSessions_failure\<rparr>"

definition failing_session :: clientSession where
  "failing_session = minted_session\<lparr>endSession_error := Some endSessions_failure\<rparr>"

definition failed_world :: world where
  "failed_world =
     \<lparr>sessionSupportChecks = 1, serverSelections = 1, executions = 1, symbols = 1,
      options_willRetryWrite = False,
      trace = [Ev_startSession (Symbol 0), Ev_selectServer (By_readPreference primary),
               Ev_execute scenario_server (Some failing_session)]\<rparr>"

text \<open>An operation whose \<^verbatim>\<open>execute\<close> throws.\<close>

definition TypeError :: mongo_error where
  "TypeError = new_error JsError ''TypeError''"

definition throwing_write :: operation where
  "throwing_write = implicit_write\<lparr>execute_answers := (\<lambda>n. Execute_throws TypeError)\<rparr>"

definition thrown_world :: world where
  "thrown_world =
     \<lparr>sessionSupportChecks = 1, serverSelections = 1, executions = 1, symbols = 1,
      options_willRetryWrite = True,
      trace = [Ev_startSession (Symbol 0), Ev_selectServer (By_readPreference primary),
               Ev_incrementTransactionNumber,
               Ev_execute scenario_server (Some (minted_session\<lparr>txnNumber := 1\<rparr>))]\<rparr>"

text \<open>Scenario 2: the first attempt of a retryable write is refused with the legacy
  \<^verbatim>\<open>IllegalOperation\<close> error, which carries no label.\<close>

definition mmapv1_refusal :: mongo_error where
  "mmapv1_refusal =
     Error MongoServerError
       ''Transaction numbers are only allowed on a replica set member or mongos'' (Some 20)
       (Some ''Transaction numbers are only allowed on a replica set member or mongos'') [] None"

definition refused_write :: operation where
  "refused_write =
     retryable_write\<lparr>execute_answers := (\<lambda>n. Execute_calls_back (Some mmapv1_refusal) None)\<rparr>"

text \<open>A retryable read whose first attempt fails with a network error, on a topology whose
  second selection calls back with neither an error nor a server.\<close>

definition retryable_read :: operation where
  "retryable_read =
     \<lparr>aspects = {READ_OPERATION, RETRYABLE}, readPreference = None,
      session = Some explicit_session, server = None, bypassPinningCheck = False,
      canRetryRead = True, canRetryWrite = False, trySecondaryWrite = False,
      execute_answers =
        (\<lambda>n. if n = 0 then Execute_calls_back (Some ECONNRESET) None
             else Execute_calls_back None (Some (Document [(''ok'', 1)])))\<rparr>"

definition no_server_on_retry_topology :: topology where
  "no_server_on_retry_topology =
     retryWrites_topology\<lparr>selectServer_answers :=
        (\<lambda>n. if n = 0 then Select_calls_back None (Some scenario_server)
             else Select_calls_back None None)\<rparr>"

text \<open>The same write when its only attempt succeeds.\<close>

definition succeeding_write :: operation where
  "succeeding_write =
     implicit_write\<lparr>execute_answers := (\<lambda>n. Execute_calls_back None (Some write_result))\<rparr>"

text \<open>A retryable write whose second attempt fails too, with an error that carries a
  label.\<close>

definition NotWritablePrimary :: mongo_error where
  "NotWritablePrimary =
     Error MongoServerError ''not primary'' (Some 10107) (Some ''not primary'')
       [''RetryableWriteError''] None"

definition exhausted_write :: operation where
  "exhausted_write =
     retryable_write\<lparr>execute_answers :=
       (\<lambda>n. if n = 0 then Execute_calls_back (Some ECONNRESET) None
            else Execute_calls_back (Some NotWritablePrimary) None)\<rparr>"

section \<open>Properties of the pipeline\<close>

subsection \<open>Attempts made and the outcome passed on\<close>

lemma attempt_exec:
  "attempt oper srv sess w = (c, sess', w') \<Longrightarrow>
     executions w' = Suc (executions w) \<and> c = completion_of (execute_answers oper (executions w))"
  by (auto simp: attempt_def execute_def)

lemma retry_exec_aux:
  "case retryOperation d topo s oper sel e mwv w of (c, sess', w') \<Rightarrow>
     executions w' = executions w \<or>
     (executions w' = Suc (executions w) \<and> c = completion_of (execute_answers oper (executions w)))"
  by (simp add: retryOperation_def Let_def attempt_def selectServer_def execute_def unpin_def
      split: selection.split option.split)

lemma retry_exec:
  "retryOperation d topo s oper sel e mwv w = (c, sess', w') \<Longrightarrow>
     executions w' = executions w \<or>
     (executions w' = Suc (executions w) \<and> c = completion_of (execute_answers oper (executions w)))"
  using retry_exec_aux [where d=d and topo=topo and s=s and oper=oper and sel=sel and e=e
      and mwv=mwv and w=w]
  by simp

lemma armed_exec:
  "armedAttempt d topo s oper sel srv rw w = (c, sess', w') \<Longrightarrow>
     executions w' = Suc (executions w) \<or>
     (executions w' = Suc (Suc (executions w))
      \<and> c = completion_of (execute_answers oper (Suc (executions w))))"
  by (auto simp: armedAttempt_def Let_def execute_def incrementTransactionNumber_def
      split: if_splits execution.splits option.splits dest!: retry_exec)

lemma first_exec:
  "firstAttempt d topo sess oper sel inTxn srv w = (c, sess', w') \<Longrightarrow>
     executions w' = Suc (executions w) \<or>
     (executions w' = Suc (Suc (executions w))
      \<and> c = completion_of (execute_answers oper (Suc (executions w))))"
  by (auto simp: firstAttempt_def Let_def split: if_splits option.splits
      dest!: armed_exec attempt_exec)

lemma pipeline_exec:
  "executeWithServerSelection d topo sess oper w = (c, sess', w') \<Longrightarrow>
     executions w' \<le> Suc (Suc (executions w)) \<and> executions w \<le> executions w' \<and>
     (executions w' = Suc (Suc (executions w))
      \<longrightarrow> c = completion_of (execute_answers oper (Suc (executions w))))"
  by (auto simp: executeWithServerSelection_def Let_def selectServer_def unpin_def
      split: if_splits option.splits selection.splits dest!: first_exec)

subsection \<open>The session that comes back\<close>

lemma retry_sess_aux:
  "case retryOperation d topo s oper sel e mwv w of (c, sess', w') \<Rightarrow>
     (case sess' of None \<Rightarrow> False | Some s' \<Rightarrow> same_but_pin (txnNumber s) s s')"
  by (simp add: retryOperation_def Let_def attempt_def selectServer_def execute_def unpin_def
      same_but_pin_def split: selection.split option.split)

lemma retry_sess:
  "retryOperation d topo s oper sel e mwv w = (c, sess', w') \<Longrightarrow>
     \<exists>s'. sess' = Some s' \<and> same_but_pin (txnNumber s) s s'"
  using retry_sess_aux [where d=d and topo=topo and s=s and oper=oper and sel=sel and e=e
      and mwv=mwv and w=w]
  by (simp split: option.splits)

lemma armed_sess:
  "armedAttempt d topo s oper sel srv rw w = (c, sess', w') \<Longrightarrow>
     \<exists>s'. sess' = Some s' \<and> same_but_pin (if rw then Suc (txnNumber s) else txnNumber s) s s'"
  by (auto simp: armedAttempt_def Let_def execute_def incrementTransactionNumber_def
      same_but_pin_def split: if_splits execution.splits option.splits dest!: retry_sess)

lemma attempt_sess:
  "attempt oper srv sess w = (c, sess', w') \<Longrightarrow> sess' = sess"
  by (auto simp: attempt_def execute_def)

lemma first_sess:
  "firstAttempt d topo (Some s) oper sel inTxn srv w = (c, sess', w') \<Longrightarrow>
     \<exists>s'. sess' = Some s' \<and>
       same_but_pin (if hasAspect oper RETRYABLE \<and> hasAspect oper WRITE_OPERATION
                        \<and> willRetryWrite d topo inTxn srv oper
                     then Suc (txnNumber s) else txnNumber s) s s'"
  by (auto simp: firstAttempt_def Let_def same_but_pin_def split: if_splits
      dest!: armed_sess attempt_sess)

lemma first_sess_None:
  "firstAttempt d topo None oper sel inTxn srv w = (c, sess', w') \<Longrightarrow> sess' = None"
  by (auto simp: firstAttempt_def dest!: attempt_sess)

lemma pipeline_sess:
  "executeWithServerSelection d topo (Some s) oper w = (c, sess', w') \<Longrightarrow>
     \<exists>s'. sess' = Some s' \<and>
       same_but_pin (if writeRetryArmed d topo s oper w then Suc (txnNumber s) else txnNumber s) s s'"
  by (auto simp: executeWithServerSelection_def Let_def selectServer_def unpin_def
        writeRetryArmed_def same_but_pin_def willRetryWrite_def
      split: if_splits option.splits selection.splits dest!: first_sess)

lemma pipeline_sess_None:
  "executeWithServerSelection d topo None oper w = (c, sess', w') \<Longrightarrow> sess' = None"
  by (auto simp: executeWithServerSelection_def Let_def selectServer_def
      split: if_splits option.splits selection.splits dest!: first_sess_None)

subsection \<open>The counters the pipeline leaves alone\<close>

lemma attempt_world:
  "attempt oper srv sess w = (c, sess', w') \<Longrightarrow> same_counters (options_willRetryWrite w) w w'"
  by (auto simp: attempt_def execute_def same_counters_def)

lemma retry_world_aux:
  "case retryOperation d topo s oper sel e mwv w of (c, sess', w') \<Rightarrow>
     same_counters (options_willRetryWrite w) w w'"
  by (simp add: retryOperation_def Let_def attempt_def selectServer_def execute_def unpin_def
      same_counters_def split: selection.split option.split)

lemma retry_world:
  "retryOperation d topo s oper sel e mwv w = (c, sess', w') \<Longrightarrow>
     same_counters (options_willRetryWrite w) w w'"
  using retry_world_aux [where d=d and topo=topo and s=s and oper=oper and sel=sel and e=e
      and mwv=mwv and w=w]
  by simp

lemma armed_world:
  "armedAttempt d topo s oper sel srv rw w = (c, sess', w') \<Longrightarrow>
     same_counters (rw \<or> options_willRetryWrite w) w w'"
  by (auto simp: armedAttempt_def Let_def execute_def incrementTransactionNumber_def
      same_counters_def split: if_splits execution.splits option.splits dest!: retry_world)

lemma first_world:
  "firstAttempt d topo sess oper sel inTxn srv w = (c, sess', w') \<Longrightarrow>
     sessionSupportChecks w' = sessionSupportChecks w \<and> symbols w' = symbols w"
  by (auto simp: firstAttempt_def Let_def same_counters_def split: if_splits option.splits
      dest!: armed_world attempt_world)

lemma pipeline_world:
  "executeWithServerSelection d topo sess oper w = (c, sess', w') \<Longrightarrow>
     sessionSupportChecks w' = sessionSupportChecks w \<and> symbols w' = symbols w"
  by (auto simp: executeWithServerSelection_def Let_def selectServer_def unpin_def
      split: if_splits option.splits selection.splits dest!: first_world)

subsection \<open>The events the pipeline adds\<close>

lemma events_since_append:
  "trace w' = trace w @ evs \<Longrightarrow> events_since w w' = evs"
  by (simp add: events_since_def)

lemma attempt_trace:
  "attempt oper srv (Some s) w = (c, sess', w') \<Longrightarrow>
     \<exists>evs. trace w' = trace w @ evs \<and> quiet 0 (txnNumber s) evs
       \<and> executions w' = executions w + length (filter is_execute evs)"
  by (auto simp: attempt_def execute_def quiet_def)

lemma attempt_trace_None:
  "attempt oper srv None w = (c, sess', w') \<Longrightarrow>
     \<exists>evs. trace w' = trace w @ evs \<and> count_list evs Ev_endSession = 0
       \<and> filter is_startSession evs = []
       \<and> count_list evs Ev_incrementTransactionNumber = 0
       \<and> executions w' = executions w + length (filter is_execute evs)"
  by (auto simp: attempt_def execute_def)

lemma retry_trace_aux:
  "case retryOperation d topo s oper sel e mwv w of (c, sess', w') \<Rightarrow>
     \<exists>evs. trace w' = trace w @ evs \<and> quiet 0 (txnNumber s) evs
       \<and> executions w' = executions w + length (filter is_execute evs)"
  by (simp add: retryOperation_def Let_def attempt_def selectServer_def execute_def unpin_def
      quiet_def split: selection.split option.split)

lemma retry_trace:
  "retryOperation d topo s oper sel e mwv w = (c, sess', w') \<Longrightarrow>
     \<exists>evs. trace w' = trace w @ evs \<and> quiet 0 (txnNumber s) evs
       \<and> executions w' = executions w + length (filter is_execute evs)"
  using retry_trace_aux [where d=d and topo=topo and s=s and oper=oper and sel=sel and e=e
      and mwv=mwv and w=w]
  by simp

lemma armed_trace:
  "armedAttempt d topo s oper sel srv rw w = (c, sess', w') \<Longrightarrow>
     \<exists>evs. trace w' = trace w @ evs
       \<and> quiet (if rw then 1 else 0) (if rw then Suc (txnNumber s) else txnNumber s) evs
       \<and> executions w' = executions w + length (filter is_execute evs)"
  by (auto simp: armedAttempt_def Let_def execute_def incrementTransactionNumber_def quiet_def
      split: if_splits execution.splits option.splits dest!: retry_trace)

lemma first_trace:
  "firstAttempt d topo (Some s) oper sel inTxn srv w = (c, sess', w') \<Longrightarrow>
     \<exists>evs. trace w' = trace w @ evs
       \<and> quiet (if hasAspect oper RETRYABLE \<and> hasAspect oper WRITE_OPERATION
                   \<and> willRetryWrite d topo inTxn srv oper then 1 else 0)
               (if hasAspect oper RETRYABLE \<and> hasAspect oper WRITE_OPERATION
                   \<and> willRetryWrite d topo inTxn srv oper
                then Suc (txnNumber s) else txnNumber s) evs
       \<and> executions w' = executions w + length (filter is_execute evs)"
  by (auto simp: firstAttempt_def Let_def split: if_splits dest!: armed_trace attempt_trace)

lemma first_trace_None:
  "firstAttempt d topo None oper sel inTxn srv w = (c, sess', w') \<Longrightarrow>
     \<exists>evs. trace w' = trace w @ evs \<and> count_list evs Ev_endSession = 0
       \<and> filter is_startSession evs = []
       \<and> count_list evs Ev_incrementTransactionNumber = 0
       \<and> executions w' = executions w + length (filter is_execute evs)"
  by (auto simp: firstAttempt_def dest!: attempt_trace_None)

lemma pipeline_trace:
  "executeWithServerSelection d topo (Some s) oper w = (c, sess', w') \<Longrightarrow>
     \<exists>evs. trace w' = trace w @ evs
       \<and> quiet (if writeRetryArmed d topo s oper w then 1 else 0)
               (if writeRetryArmed d topo s oper w then Suc (txnNumber s) else txnNumber s) evs
       \<and> executions w' = executions w + length (filter is_execute evs)"
  by (auto simp: executeWithServerSelection_def Let_def selectServer_def unpin_def
        writeRetryArmed_def quiet_def willRetryWrite_def
      split: if_splits selection.splits option.splits dest!: first_trace)

lemma pipeline_trace_None:
  "executeWithServerSelection d topo None oper w = (c, sess', w') \<Longrightarrow>
     \<exists>evs. trace w' = trace w @ evs \<and> count_list evs Ev_endSession = 0
       \<and> filter is_startSession evs = []
       \<and> count_list evs Ev_incrementTransactionNumber = 0
       \<and> executions w' = executions w + length (filter is_execute evs)"
  by (auto simp: executeWithServerSelection_def Let_def selectServer_def
      split: if_splits selection.splits option.splits dest!: first_trace_None)

subsection \<open>The retry policy\<close>

text \<open>The test of the message is the test for a contiguous part.\<close>

lemma regex_test_sublist: "regex_test pat s = sublist pat s"
  by (induction s) (simp_all add: sublist_Cons_right)

lemma regex_test_contains: "regex_test pat s \<longleftrightarrow> (\<exists>ps ss. s = ps @ pat @ ss)"
  by (simp add: regex_test_sublist sublist_def)

text \<open>The check of retryability comes first: a write error that is not classified
  retryable goes to the callback as it is, whatever its code and message. The legacy
  refusal is replaced only when it was classified retryable before.\<close>

lemma retry_not_retryable_write:
  "hasAspect oper WRITE_OPERATION \<Longrightarrow> \<not> isRetryableWriteError d e mwv \<Longrightarrow>
     retryOperation d topo s oper sel e mwv w = (Callback (Some e) None, Some s, w)"
  by (simp add: retryOperation_def)

lemma retry_remap:
  "hasAspect oper WRITE_OPERATION \<Longrightarrow> isRetryableWriteError d e mwv \<Longrightarrow>
   (hasAspect oper READ_OPERATION \<longrightarrow> isRetryableReadError d e) \<Longrightarrow>
   code e = Some IllegalOperation \<Longrightarrow> test_errmsg ''Transaction numbers'' (errmsg e) \<Longrightarrow>
     retryOperation d topo s oper sel e mwv w
       = (Callback (Some (Error MongoServerError MMAPv1_RETRY_WRITES_ERROR_MESSAGE None
                            (Some MMAPv1_RETRY_WRITES_ERROR_MESSAGE) [] (Some e))) None,
          Some s, w)"
  by (auto simp: retryOperation_def MMAPv1_RETRY_WRITES_ERROR_CODE_def)

text \<open>After the second selection: its error goes to the callback as it is; for a read,
  a selection without error and without server is answered by the check of the wire
  version.\<close>

lemma retry_reselection_error:
  assumes "retryOperation d topo s oper sel e mwv w = (c, sess', w')"
    and "serverSelections w' = Suc (serverSelections w)"
    and "selectServer_answers topo (serverSelections w) = Select_calls_back (Some err) srv"
  shows "c = Callback (Some err) None"
  using assms
  by (auto simp: retryOperation_def Let_def selectServer_def unpin_def attempt_def execute_def
      split: if_splits)

lemma retry_no_server_read:
  assumes "retryOperation d topo s oper sel e mwv w = (c, sess', w')"
    and "serverSelections w' = Suc (serverSelections w)"
    and "selectServer_answers topo (serverSelections w) = Select_calls_back None None"
    and "hasAspect oper READ_OPERATION"
  shows "c = Callback (Some (new_error MongoUnexpectedServerResponseError
                               ''Selected server does not support retryable reads'')) None"
  using assms
  by (auto simp: retryOperation_def Let_def selectServer_def unpin_def attempt_def execute_def
        supportsRetryableReads_def maxWireVersion_def UNKNOWN_def
      split: if_splits)

section \<open>Properties of the coordinator\<close>

lemma executeOperation_settled:
  "\<not> shouldCheckForSessionSupport topo (sessionSupportChecks w) \<Longrightarrow>
     executeOperation (Suc fuel) d topo oper w =
       (case acquireSession topo oper (w\<lparr>sessionSupportChecks := Suc (sessionSupportChecks w)\<rparr>) of
          Inl err \<Rightarrow> Some (Callback_invoked (Some err) None, session oper,
                            w\<lparr>sessionSupportChecks := Suc (sessionSupportChecks w)\<rparr>)
        | Inr (sess, ow, w2) \<Rightarrow> Some (teardown ow (executeWithServerSelection d topo sess oper w2)))"
  by (simp add: checkForSessionSupport_def maybePromise_callback_def split: sum.split)

lemma acquireSession_cases:
  assumes "acquireSession topo oper w1 = Inr (sess, ow, w2)"
  obtains
    (minted) "hasSessionSupport topo" "session oper = None" "ow = Some (Symbol (symbols w1))"
      "sess = Some (fst (startSession topo (Symbol (symbols w1)) w1))"
      "w2 = w1\<lparr>symbols := Suc (symbols w1), trace := trace w1 @ [Ev_startSession (Symbol (symbols w1))]\<rparr>"
  | (given) s where "hasSessionSupport topo" "session oper = Some s" "sess = Some s" "ow = None" "w2 = w1"
      "\<not> hasEnded s" "snapshotEnabled s \<longrightarrow> supportsSnapshotReads topo"
  | (none) "\<not> hasSessionSupport topo" "session oper = None" "sess = None" "ow = None" "w2 = w1"
  using assms
  by (auto simp: acquireSession_def fresh_Symbol_def startSession_def split: if_splits option.splits)

lemma teardown_owned:
  "owner s = Some t \<Longrightarrow>
   teardown (Some t) (c, Some s, w) =
     ((case c of
         Callback err res \<Rightarrow>
           maybePromise_callback (case endSession_error s of Some e \<Rightarrow> Some e | None \<Rightarrow> err) res
       | Throws x \<Rightarrow> Callback_not_invoked),
      Some (s\<lparr>hasEnded := True\<rparr>), w\<lparr>trace := trace w @ [Ev_endSession]\<rparr>)"
  by (simp add: teardown_def ownedHere_def endSession_def split: completion.splits)

lemma teardown_not_owned:
  "teardown None (c, sess, w) =
     ((case c of Callback err res \<Rightarrow> maybePromise_callback err res | Throws x \<Rightarrow> Callback_not_invoked),
      sess, w)"
  by (auto simp: teardown_def ownedHere_def split: completion.splits option.splits)

lemma teardown_executions:
  "teardown ow (c, s1, w) = (out, sess', w') \<Longrightarrow> executions w' = executions w"
  by (auto simp: teardown_def endSession_def split: completion.splits option.splits if_splits)

text \<open>Acquisition, pipeline and teardown together, for an execution that is past the check
  of session support.\<close>

lemma body_lifecycle:
  assumes acq: "acquireSession topo oper w1 = Inr (sess, ow, w2)"
    and td: "teardown ow (executeWithServerSelection d topo sess oper w2) = (out, sess', w')"
  shows "\<exists>evs. trace w' = trace w1 @ evs
           \<and> lifecycle oper (symbols w1) (hasSessionSupport topo \<and> session oper = None) evs sess'"
proof -
  obtain c s1 w3 where pr: "executeWithServerSelection d topo sess oper w2 = (c, s1, w3)"
    by (cases "executeWithServerSelection d topo sess oper w2") auto
  from acq show ?thesis
  proof (cases rule: acquireSession_cases)
    case minted
    let ?s = "fst (startSession topo (Symbol (symbols w1)) w1)"
    have own: "owner ?s = Some (Symbol (symbols w1))" by (simp add: startSession_def)
    from pr minted pipeline_sess obtain s1' n where
      s1: "s1 = Some s1'" and sb: "same_but_pin n ?s s1'"
      by blast
    from pr minted pipeline_trace obtain evs k m where
      evs: "trace w3 = trace w2 @ evs" and q: "quiet k m evs"
      by blast
    from sb own have own1: "owner s1' = Some (Symbol (symbols w1))"
      by (simp add: same_but_pin_def)
    from td pr s1 minted teardown_owned [OF own1]
    have "sess' = Some (s1'\<lparr>hasEnded := True\<rparr>)" "trace w' = trace w3 @ [Ev_endSession]"
      by auto
    with evs q minted own1 show ?thesis by (auto simp: lifecycle_def quiet_def)
  next
    case (given s)
    from pr given pipeline_sess obtain s1' n where
      s1: "s1 = Some s1'" and sb: "same_but_pin n s s1'"
      by blast
    from pr given pipeline_trace obtain evs k m where
      evs: "trace w3 = trace w2 @ evs" and q: "quiet k m evs"
      by blast
    from td pr given have "sess' = s1" "w' = w3"
      by (auto simp: teardown_not_owned)
    with evs q given s1 sb show ?thesis by (auto simp: lifecycle_def quiet_def same_but_pin_def)
  next
    case none
    from pr none pipeline_sess_None have s1: "s1 = None" by blast
    from pr none pipeline_trace_None obtain evs where
      evs: "trace w3 = trace w2 @ evs" "count_list evs Ev_endSession = 0"
        "filter is_startSession evs = []"
      by blast
    from td pr none have "sess' = s1" "w' = w3"
      by (auto simp: teardown_not_owned)
    with evs none s1 show ?thesis by (auto simp: lifecycle_def)
  qed
qed

text \<open>The same for any number of entries, by induction on it: a round of discovery adds
  one selection to the trace and nothing else.\<close>

lemma executeOperation_lifecycle:
  "executeOperation fuel d topo oper w = Some (out, sess', w') \<Longrightarrow>
     symbols w = n \<Longrightarrow>
     \<exists>evs minted. trace w' = trace w @ evs \<and> lifecycle oper n minted evs sess'"
proof (induction fuel arbitrary: w)
  case 0
  then show ?case by simp
next
  case (Suc fuel)
  let ?w1 = "w\<lparr>sessionSupportChecks := Suc (sessionSupportChecks w)\<rparr>"
  show ?case
  proof (cases "shouldCheckForSessionSupport topo (sessionSupportChecks w)")
    case False
    show ?thesis
    proof (cases "acquireSession topo oper ?w1")
      case (Inl err)
      with False Suc.prems have "w' = ?w1" "sess' = session oper"
        by (auto simp: checkForSessionSupport_def)
      then have "trace w' = trace w @ [] \<and> lifecycle oper n False [] sess'"
        by (simp add: lifecycle_def)
      then show ?thesis by blast
    next
      case (Inr r)
      then obtain sess ow w2 where acq: "acquireSession topo oper ?w1 = Inr (sess, ow, w2)"
        by (cases r) auto
      with False Suc.prems
      have td: "teardown ow (executeWithServerSelection d topo sess oper w2) = (out, sess', w')"
        by (auto simp: checkForSessionSupport_def)
      from body_lifecycle [OF acq td] Suc.prems(2) show ?thesis by auto
    qed
  next
    case True
    let ?ev = "Ev_selectServer (By_readPreference primaryPreferred)"
    let ?w2 = "?w1\<lparr>serverSelections := Suc (serverSelections ?w1), trace := trace ?w1 @ [?ev]\<rparr>"
    have stop: "w' = ?w2 \<Longrightarrow> sess' = session oper \<Longrightarrow> ?thesis"
    proof -
      assume "w' = ?w2" "sess' = session oper"
      then have "trace w' = trace w @ [?ev] \<and> lifecycle oper n False [?ev] sess'"
        by (simp add: lifecycle_def)
      then show ?thesis by blast
    qed
    show ?thesis
    proof (cases "selectServer_answers topo (serverSelections w)")
      case (Select_throws x)
      with True Suc.prems have "w' = ?w2" "sess' = session oper"
        by (auto simp: checkForSessionSupport_def selectServer_def)
      then show ?thesis by (rule stop)
    next
      case (Select_calls_back err srv)
      show ?thesis
      proof (cases err)
        case (Some e)
        with Select_calls_back True Suc.prems have "w' = ?w2" "sess' = session oper"
          by (auto simp: checkForSessionSupport_def selectServer_def)
        then show ?thesis by (rule stop)
      next
        case None
        with Select_calls_back True Suc.prems
        have "executeOperation fuel d topo oper ?w2 = Some (out, sess', w')"
          by (auto simp: checkForSessionSupport_def selectServer_def)
        from Suc.IH [OF this] Suc.prems(2)
        obtain evs minted where "trace w' = trace ?w2 @ evs" "lifecycle oper n minted evs sess'"
          by auto
        then have "trace w' = trace w @ (?ev # evs) \<and> lifecycle oper n minted (?ev # evs) sess'"
          by (simp add: lifecycle_def)
        then show ?thesis by blast
      qed
    qed
  qed
qed

lemma executeOperation_exec:
  "executeOperation fuel d topo oper w = Some (out, sess', w') \<Longrightarrow>
     executions w' \<le> executions w + 2"
proof (induction fuel arbitrary: w)
  case 0
  then show ?case by simp
next
  case (Suc fuel)
  let ?w1 = "w\<lparr>sessionSupportChecks := Suc (sessionSupportChecks w)\<rparr>"
  show ?case
  proof (cases "shouldCheckForSessionSupport topo (sessionSupportChecks w)")
    case False
    show ?thesis
    proof (cases "acquireSession topo oper ?w1")
      case (Inl err)
      with False Suc.prems have "w' = ?w1"
        by (auto simp: checkForSessionSupport_def)
      then show ?thesis by simp
    next
      case (Inr r)
      then obtain sess ow w2 where acq: "acquireSession topo oper ?w1 = Inr (sess, ow, w2)"
        by (cases r) auto
      with False Suc.prems
      have td: "teardown ow (executeWithServerSelection d topo sess oper w2) = (out, sess', w')"
        by (auto simp: checkForSessionSupport_def)
      obtain c s1 w3 where pr: "executeWithServerSelection d topo sess oper w2 = (c, s1, w3)"
        by (cases "executeWithServerSelection d topo sess oper w2") auto
      from acq have "executions w2 = executions w"
        by (cases rule: acquireSession_cases) simp_all
      with pipeline_exec [OF pr] teardown_executions [OF td [unfolded pr]] show ?thesis by simp
    qed
  next
    case True
    let ?w2 = "?w1\<lparr>serverSelections := Suc (serverSelections ?w1),
                    trace := trace ?w1 @ [Ev_selectServer (By_readPreference primaryPreferred)]\<rparr>"
    show ?thesis
    proof (cases "selectServer_answers topo (serverSelections w)")
      case (Select_throws x)
      with True Suc.prems have "w' = ?w2"
        by (auto simp: checkForSessionSupport_def selectServer_def)
      then show ?thesis by simp
    next
      case (Select_calls_back err srv)
      show ?thesis
      proof (cases err)
        case (Some e)
        with Select_calls_back True Suc.prems have "w' = ?w2"
          by (auto simp: checkForSessionSupport_def selectServer_def)
        then show ?thesis by simp
      next
        case None
        with Select_calls_back True Suc.prems
        have "executeOperation fuel d topo oper ?w2 = Some (out, sess', w')"
          by (auto simp: checkForSessionSupport_def selectServer_def)
        from Suc.IH [OF this] show ?thesis by simp
      qed
    qed
  qed
qed

section \<open>The scenarios, run\<close>

lemmas model_defs =
  executeWithServerSelection_def firstAttempt_def armedAttempt_def retryOperation_def attempt_def
  completion_of_def selectServer_def execute_def unpin_def incrementTransactionNumber_def
  effectiveReadPreference_def choose_selector_def hasAspect_def willRetryRead_def willRetryWrite_def
  supportsRetryableReads_def maxWireVersion_def UNKNOWN_def SUPPORTS_OP_MSG_def
  transaction_readPreference_error_def new_error_def instanceof_MongoError_def
  instanceof_MongoNetworkError_def test_errmsg_def MMAPv1_RETRY_WRITES_ERROR_CODE_def
  IllegalOperation_def Let_def

lemmas scenario_defs =
  scenario_server_def other_server_def scenario_deps_def explicit_session_def initial_world_def
  ECONNRESET_def retryWrites_topology_def write_result_def retryable_write_def
  session_in_transaction_def secondary_read_def spec_isRetryableWriteError_def
  spec_isRetryableReadError_def

lemmas coordinator_defs =
  maybePromise_callback_def checkForSessionSupport_def acquireSession_def fresh_Symbol_def startSession_def teardown_def
  ownedHere_def endSession_def

lemmas more_scenario_defs =
  ended_session_def topology_without_sessions_def write_with_ended_session_def implicit_write_def
  minted_session_def minted_world_def implicit_run_world_def endSessions_failure_def
  failing_endSession_topology_def failing_session_def failed_world_def TypeError_def
  throwing_write_def thrown_world_def mmapv1_refusal_def refused_write_def retryable_read_def
  no_server_on_retry_topology_def succeeding_write_def NotWritablePrimary_def exhausted_write_def

lemma scenario1_run:
  "executeWithServerSelection scenario_deps retryWrites_topology (Some explicit_session)
     retryable_write initial_world
   = (Callback None (Some write_result), Some (explicit_session\<lparr>txnNumber := 6\<rparr>), scenario1_world)"
  by (simp add: model_defs scenario_defs scenario1_world_def)

lemma implicit_run:
  "executeOperation (Suc 0) scenario_deps retryWrites_topology implicit_write initial_world
   = Some (Callback_invoked None (Some write_result),
           Some (minted_session\<lparr>txnNumber := 1, hasEnded := True\<rparr>), implicit_run_world)"
  by (simp add: coordinator_defs model_defs scenario_defs more_scenario_defs)

lemma failing_run:
  "executeWithServerSelection scenario_deps failing_endSession_topology (Some failing_session)
     implicit_write minted_world
   = (Callback (Some ECONNRESET) None, Some failing_session, failed_world)"
  by (simp add: model_defs scenario_defs more_scenario_defs)

lemma succeeding_run:
  "executeWithServerSelection scenario_deps failing_endSession_topology (Some failing_session)
     succeeding_write minted_world
   = (Callback None (Some write_result), Some failing_session, failed_world)"
  by (simp add: model_defs scenario_defs more_scenario_defs)

lemma exhausted_run:
  "executeWithServerSelection scenario_deps retryWrites_topology (Some explicit_session)
     exhausted_write initial_world
   = (Callback (Some NotWritablePrimary) None, Some (explicit_session\<lparr>txnNumber := 6\<rparr>),
      scenario1_world)"
  by (simp add: model_defs scenario_defs more_scenario_defs scenario1_world_def)

lemma throwing_run:
  "executeWithServerSelection scenario_deps retryWrites_topology (Some minted_session)
     throwing_write minted_world
   = (Throws TypeError, Some (minted_session\<lparr>txnNumber := 1\<rparr>), thrown_world)"
  by (simp add: model_defs scenario_defs more_scenario_defs)

section \<open>The claims\<close>

text \<open>
  Claim C1. For a run of the pipeline with a session: the transaction number the session
  ends with is the one it started with, plus one exactly when the write retry is armed
  (\<open>writeRetryArmed\<close>: the operation is \<open>RETRYABLE\<close>, has the write aspect, and
  \<open>willRetryWrite\<close> holds for the server the first selection gave); the trace holds one
  increment in that case and none otherwise; and every attempt of the run, the first and
  the second, was made with the final number, so the increment comes before the first
  attempt and nothing takes it back.
\<close>

theorem transaction_number_incremented_once:
  assumes "executeWithServerSelection d topo (Some s) oper w = (c, sess', w')"
  shows "map_option txnNumber sess'
           = Some (txnNumber s + (if writeRetryArmed d topo s oper w then 1 else 0))
         \<and> count_list (events_since w w') Ev_incrementTransactionNumber
             = (if writeRetryArmed d topo s oper w then 1 else 0)
         \<and> list_all (attempted_with (txnNumber s + (if writeRetryArmed d topo s oper w then 1 else 0)))
             (events_since w w')"
proof -
  from pipeline_sess [OF assms] have 1: "map_option txnNumber sess'
      = Some (txnNumber s + (if writeRetryArmed d topo s oper w then 1 else 0))"
    by (auto simp: same_but_pin_def)
  from pipeline_trace [OF assms] obtain evs where
    evs: "trace w' = trace w @ evs"
    and q: "quiet (if writeRetryArmed d topo s oper w then 1 else 0)
               (if writeRetryArmed d topo s oper w then Suc (txnNumber s) else txnNumber s) evs"
    by blast
  from evs have "events_since w w' = evs" by (rule events_since_append)
  with q 1 show ?thesis
    by (cases "writeRetryArmed d topo s oper w") (simp_all add: quiet_def)
qed

theorem transaction_number_incremented_once_witness:
  "executeWithServerSelection scenario_deps retryWrites_topology (Some explicit_session)
     retryable_write initial_world
   = (Callback None (Some write_result), Some (explicit_session\<lparr>txnNumber := 6\<rparr>), scenario1_world)
   \<and> writeRetryArmed scenario_deps retryWrites_topology explicit_session retryable_write initial_world
   \<and> txnNumber explicit_session = 5
   \<and> map_option txnNumber (Some (explicit_session\<lparr>txnNumber := 6\<rparr>)) = Some 6
   \<and> count_list (events_since initial_world scenario1_world) Ev_incrementTransactionNumber = 1
   \<and> list_all (attempted_with 6) (events_since initial_world scenario1_world)"
proof -
  have a: "writeRetryArmed scenario_deps retryWrites_topology explicit_session retryable_write
             initial_world"
    by (simp add: writeRetryArmed_def model_defs scenario_defs)
  show ?thesis
    using a scenario1_run transaction_number_incremented_once [OF scenario1_run]
    by (simp add: explicit_session_def)
qed

text \<open>
  Claim C2, as amended. When the coordinator minted the session and the pipeline called
  back, and ending the session yields an error, the caller receives that error and nothing
  else: it replaces a successful result, and it replaces an error of the execution as
  well. The error of the execution is what the caller receives only when ending the
  session yields none. In every case the session is ended.
\<close>

theorem endSession_error_takes_precedence:
  assumes settled: "\<not> shouldCheckForSessionSupport topo (sessionSupportChecks w)"
    and implicit: "session oper = None" "hasSessionSupport topo"
    and acq: "acquireSession topo oper (w\<lparr>sessionSupportChecks := Suc (sessionSupportChecks w)\<rparr>)
                = Inr (Some s0, ow, w0)"
    and cb: "executeWithServerSelection d topo (Some s0) oper w0 = (Callback err res, sess1, w1)"
  shows "executeOperation (Suc fuel) d topo oper w
           = Some (case endSession_error s0 of
                     Some e \<Rightarrow> Callback_invoked (Some e) None
                   | None \<Rightarrow>
                       (case err of
                          Some x \<Rightarrow> Callback_invoked (Some x) None
                        | None \<Rightarrow> Callback_invoked None res),
                   map_option (\<lambda>s. s\<lparr>hasEnded := True\<rparr>) sess1,
                   w1\<lparr>trace := trace w1 @ [Ev_endSession]\<rparr>)"
proof -
  from acq implicit have ow: "ow = Some (Symbol (symbols w))"
    and own: "owner s0 = Some (Symbol (symbols w))"
    by (auto simp: acquireSession_def fresh_Symbol_def startSession_def split: option.splits)
  from pipeline_sess [OF cb] obtain s1 n where s1: "sess1 = Some s1" and sb: "same_but_pin n s0 s1"
    by blast
  from sb own have "owner s1 = Some (Symbol (symbols w))" "endSession_error s1 = endSession_error s0"
    by (simp_all add: same_but_pin_def)
  with settled acq cb ow s1 show ?thesis
    by (simp add: executeOperation_settled [OF settled] teardown_owned maybePromise_callback_def
        del: executeOperation.simps split: option.split)
qed

theorem endSession_error_takes_precedence_witness:
  "\<not> shouldCheckForSessionSupport failing_endSession_topology (sessionSupportChecks initial_world)
   \<and> session implicit_write = None \<and> session succeeding_write = None
   \<and> hasSessionSupport failing_endSession_topology
   \<and> endSession_error failing_session = Some endSessions_failure
   \<and> executeWithServerSelection scenario_deps failing_endSession_topology (Some failing_session)
        succeeding_write minted_world
      = (Callback None (Some write_result), Some failing_session, failed_world)
   \<and> executeOperation (Suc 0) scenario_deps failing_endSession_topology succeeding_write
        initial_world
      = Some (Callback_invoked (Some endSessions_failure) None,
              Some (failing_session\<lparr>hasEnded := True\<rparr>),
              failed_world\<lparr>trace := trace failed_world @ [Ev_endSession]\<rparr>)
   \<and> executeWithServerSelection scenario_deps failing_endSession_topology (Some failing_session)
        implicit_write minted_world
      = (Callback (Some ECONNRESET) None, Some failing_session, failed_world)
   \<and> executeOperation (Suc 0) scenario_deps failing_endSession_topology implicit_write initial_world
      = Some (Callback_invoked (Some endSessions_failure) None,
              Some (failing_session\<lparr>hasEnded := True\<rparr>),
              failed_world\<lparr>trace := trace failed_world @ [Ev_endSession]\<rparr>)"
proof -
  have a: "\<not> shouldCheckForSessionSupport failing_endSession_topology
               (sessionSupportChecks initial_world)"
    by (simp add: failing_endSession_topology_def retryWrites_topology_def)
  have b: "session implicit_write = None" by (simp add: implicit_write_def)
  have b': "session succeeding_write = None" by (simp add: succeeding_write_def implicit_write_def)
  have c: "hasSessionSupport failing_endSession_topology"
    by (simp add: failing_endSession_topology_def retryWrites_topology_def)
  have e: "acquireSession failing_endSession_topology implicit_write
             (initial_world\<lparr>sessionSupportChecks := Suc (sessionSupportChecks initial_world)\<rparr>)
           = Inr (Some failing_session, Some (Symbol 0), minted_world)"
    by (simp add: coordinator_defs scenario_defs more_scenario_defs)
  have e': "acquireSession failing_endSession_topology succeeding_write
             (initial_world\<lparr>sessionSupportChecks := Suc (sessionSupportChecks initial_world)\<rparr>)
           = Inr (Some failing_session, Some (Symbol 0), minted_world)"
    by (simp add: coordinator_defs scenario_defs more_scenario_defs)
  have f: "endSession_error failing_session = Some endSessions_failure"
    by (simp add: failing_session_def minted_session_def)
  show ?thesis
    using a b b' c f failing_run succeeding_run
      endSession_error_takes_precedence [OF a b c e failing_run, of 0]
      endSession_error_takes_precedence [OF a b' c e' succeeding_run, of 0]
    by simp
qed

text \<open>
  Claim C2 as stated fails: the only attempt fails with \<open>ECONNRESET\<close>, ending the minted
  session fails too, and the caller receives the error of ending the session, not the
  error of the execution.
\<close>

theorem endSession_error_shadows_execution_error:
  "executeWithServerSelection scenario_deps failing_endSession_topology (Some failing_session)
     implicit_write minted_world
   = (Callback (Some ECONNRESET) None, Some failing_session, failed_world)
   \<and> executeOperation (Suc 0) scenario_deps failing_endSession_topology implicit_write initial_world
      = Some (Callback_invoked (Some endSessions_failure) None,
              Some (failing_session\<lparr>hasEnded := True\<rparr>),
              failed_world\<lparr>trace := trace failed_world @ [Ev_endSession]\<rparr>)
   \<and> endSessions_failure \<noteq> ECONNRESET"
  by (simp add: coordinator_defs model_defs scenario_defs more_scenario_defs)

text \<open>
  Claim C3. For an operation with the \<open>RETRYABLE\<close> aspect and a session: \<open>willRetryRead\<close>
  holds iff \<^verbatim>\<open>retryReads\<close> is not \<^verbatim>\<open>false\<close>, the session is not in a transaction, the
  server's max wire version is at least \<open>SUPPORTS_OP_MSG\<close> and the operation can retry
  reads; \<open>willRetryWrite\<close> holds iff \<^verbatim>\<open>retryWrites\<close> is \<^verbatim>\<open>true\<close>, the session is not in a
  transaction, the server advertises retryable writes and the operation can retry writes;
  and these two conditions, each with its aspect, decide between the armed first attempt
  and the plain one.
\<close>

theorem retry_gates:
  assumes "hasAspect oper RETRYABLE"
  shows "(willRetryRead topo (inTransaction s) srv oper \<longleftrightarrow>
            retryReads topo \<noteq> Some False \<and> \<not> inTransaction s
            \<and> SUPPORTS_OP_MSG \<le> description_maxWireVersion srv \<and> canRetryRead oper)
         \<and> (willRetryWrite d topo (inTransaction s) srv oper \<longleftrightarrow>
            retryWrites topo = Some True \<and> \<not> inTransaction s
            \<and> supportsRetryableWrites d (Some srv) \<and> canRetryWrite oper)
         \<and> firstAttempt d topo (Some s) oper sel (inTransaction s) srv w
            = (if (hasAspect oper READ_OPERATION
                     \<and> retryReads topo \<noteq> Some False \<and> \<not> inTransaction s
                     \<and> SUPPORTS_OP_MSG \<le> description_maxWireVersion srv \<and> canRetryRead oper)
                  \<or> (hasAspect oper WRITE_OPERATION
                     \<and> retryWrites topo = Some True \<and> \<not> inTransaction s
                     \<and> supportsRetryableWrites d (Some srv) \<and> canRetryWrite oper)
               then armedAttempt d topo s oper sel srv
                      (hasAspect oper WRITE_OPERATION
                       \<and> retryWrites topo = Some True \<and> \<not> inTransaction s
                       \<and> supportsRetryableWrites d (Some srv) \<and> canRetryWrite oper) w
               else attempt oper srv (Some s) w)"
  using assms
  by (simp add: firstAttempt_def willRetryRead_def willRetryWrite_def supportsRetryableReads_def
      maxWireVersion_def SUPPORTS_OP_MSG_def Let_def)

theorem retry_gates_witness:
  "hasAspect retryable_write RETRYABLE
   \<and> \<not> willRetryRead retryWrites_topology (inTransaction explicit_session) scenario_server retryable_write
   \<and> willRetryWrite scenario_deps retryWrites_topology (inTransaction explicit_session) scenario_server
       retryable_write
   \<and> firstAttempt scenario_deps retryWrites_topology (Some explicit_session) retryable_write
       (By_readPreference primary) (inTransaction explicit_session) scenario_server initial_world
     = armedAttempt scenario_deps retryWrites_topology explicit_session retryable_write
         (By_readPreference primary) scenario_server True initial_world"
proof -
  have a: "hasAspect retryable_write RETRYABLE"
    by (simp add: hasAspect_def retryable_write_def)
  show ?thesis
    using a retry_gates [OF a, of retryWrites_topology explicit_session scenario_server scenario_deps
        "By_readPreference primary" initial_world]
    by (simp add: hasAspect_def scenario_defs SUPPORTS_OP_MSG_def)
qed

text \<open>
  Claim C4. One run of the pipeline calls \<^verbatim>\<open>operation.execute\<close> at most twice, and the
  trace holds as many attempts as the counter says. When there were two, the callback of
  the pipeline received exactly what the second attempt gave: when the attempt called back
  with an error and a result, that same error, code, message and labels as they came, and
  that same result; when it threw, the pipeline threw that exception. A whole execution
  of the coordinator makes at most two attempts as well, however many rounds of discovery
  come first.
\<close>

theorem at_most_two_attempts:
  "(executeWithServerSelection d topo sess oper w = (c, sess', w') \<longrightarrow>
      executions w' \<le> executions w + 2
      \<and> length (filter is_execute (events_since w w')) = executions w' - executions w
      \<and> (executions w' = executions w + 2
           \<and> execute_answers oper (executions w + 1) = Execute_calls_back err res
           \<longrightarrow> c = Callback err res)
      \<and> (executions w' = executions w + 2
           \<and> execute_answers oper (executions w + 1) = Execute_throws x
           \<longrightarrow> c = Throws x))
   \<and> (executeOperation fuel d topo oper v = Some (out, sess'', v') \<longrightarrow>
        executions v' \<le> executions v + 2)"
proof (intro conjI impI)
  assume run: "executeWithServerSelection d topo sess oper w = (c, sess', w')"
  have "\<exists>evs. trace w' = trace w @ evs
          \<and> executions w' = executions w + length (filter is_execute evs)"
  proof (cases sess)
    case None
    with run pipeline_trace_None show ?thesis by blast
  next
    case (Some s)
    with run pipeline_trace show ?thesis by blast
  qed
  then show "length (filter is_execute (events_since w w')) = executions w' - executions w"
    by (auto simp: events_since_append)
  from pipeline_exec [OF run] show "executions w' \<le> executions w + 2" by simp
  {
    assume "executions w' = executions w + 2
      \<and> execute_answers oper (executions w + 1) = Execute_calls_back err res"
    with pipeline_exec [OF run] show "c = Callback err res"
      by (simp add: completion_of_def)
  }
  {
    assume "executions w' = executions w + 2
      \<and> execute_answers oper (executions w + 1) = Execute_throws x"
    with pipeline_exec [OF run] show "c = Throws x"
      by (simp add: completion_of_def)
  }
next
  assume "executeOperation fuel d topo oper v = Some (out, sess'', v')"
  then show "executions v' \<le> executions v + 2" by (rule executeOperation_exec)
qed

theorem at_most_two_attempts_witness:
  "executeWithServerSelection scenario_deps retryWrites_topology (Some explicit_session)
     exhausted_write initial_world
   = (Callback (Some NotWritablePrimary) None, Some (explicit_session\<lparr>txnNumber := 6\<rparr>),
      scenario1_world)
   \<and> executions scenario1_world = executions initial_world + 2
   \<and> length (filter is_execute (events_since initial_world scenario1_world)) = 2
   \<and> execute_answers exhausted_write (executions initial_world + 1)
       = Execute_calls_back (Some NotWritablePrimary) None
   \<and> errorLabels NotWritablePrimary = [''RetryableWriteError'']
   \<and> executeWithServerSelection scenario_deps retryWrites_topology (Some explicit_session)
        retryable_write initial_world
      = (Callback None (Some write_result), Some (explicit_session\<lparr>txnNumber := 6\<rparr>),
         scenario1_world)
   \<and> execute_answers retryable_write (executions initial_world + 1)
       = Execute_calls_back None (Some write_result)
   \<and> executeOperation (Suc 0) scenario_deps retryWrites_topology implicit_write initial_world
      = Some (Callback_invoked None (Some write_result),
              Some (minted_session\<lparr>txnNumber := 1, hasEnded := True\<rparr>), implicit_run_world)
   \<and> executions implicit_run_world \<le> executions initial_world + 2"
proof -
  have a: "execute_answers exhausted_write (executions initial_world + 1)
             = Execute_calls_back (Some NotWritablePrimary) None"
    by (simp add: exhausted_write_def initial_world_def)
  have b: "execute_answers retryable_write (executions initial_world + 1)
             = Execute_calls_back None (Some write_result)"
    by (simp add: retryable_write_def initial_world_def)
  have l: "errorLabels NotWritablePrimary = [''RetryableWriteError'']"
    by (simp add: NotWritablePrimary_def)
  have x: "executions scenario1_world = executions initial_world + 2"
    by (simp add: scenario1_world_def initial_world_def)
  note p = at_most_two_attempts [THEN conjunct1, THEN mp, OF exhausted_run]
  note k = at_most_two_attempts [THEN conjunct2, THEN mp, OF implicit_run]
  from p have n: "length (filter is_execute (events_since initial_world scenario1_world)) = 2"
    by (simp add: scenario1_world_def initial_world_def)
  show ?thesis
    using a b l x n k exhausted_run scenario1_run implicit_run
    by (simp del: executeOperation.simps)
qed

text \<open>
  Claim C5, at the input of scenario 2 of the spec. The write retry is armed, the first
  attempt fails with code \<open>IllegalOperation\<close> and a message that contains
  \<^verbatim>\<open>Transaction numbers\<close>, the error has no label and the server's wire version is 8, so
  the classifier of section 4.5 does not call it retryable: the check of retryability
  returns first and the caller receives the server's error as it came, not the message of
  \<open>MMAPv1_RETRY_WRITES_ERROR_MESSAGE\<close>.
\<close>

theorem mmapv1_refusal_surfaced_unchanged:
  "writeRetryArmed scenario_deps retryWrites_topology explicit_session refused_write initial_world
   \<and> execute_answers refused_write 0 = Execute_calls_back (Some mmapv1_refusal) None
   \<and> code mmapv1_refusal = Some IllegalOperation
   \<and> test_errmsg ''Transaction numbers'' (errmsg mmapv1_refusal)
   \<and> fst (executeWithServerSelection scenario_deps retryWrites_topology (Some explicit_session)
           refused_write initial_world)
       = Callback (Some mmapv1_refusal) None
   \<and> message mmapv1_refusal \<noteq> MMAPv1_RETRY_WRITES_ERROR_MESSAGE"
  by (simp add: writeRetryArmed_def model_defs scenario_defs more_scenario_defs
      MMAPv1_RETRY_WRITES_ERROR_MESSAGE_def)

text \<open>
  Claim C6, at an input where the second selection calls back with neither an error nor a
  server: for a read, the check of the wire version runs first, on the absent server, and
  the caller receives \<^verbatim>\<open>Selected server does not support retryable reads\<close> instead of
  \<^verbatim>\<open>Server selection failed without error\<close>.
\<close>

theorem absent_server_rechecked_before_no_server_case:
  "selectServer_answers no_server_on_retry_topology 1 = Select_calls_back None None
   \<and> fst (executeWithServerSelection scenario_deps no_server_on_retry_topology
           (Some explicit_session) retryable_read initial_world)
       = Callback (Some (new_error MongoUnexpectedServerResponseError
                     ''Selected server does not support retryable reads'')) None
   \<and> message (new_error MongoUnexpectedServerResponseError
                 ''Selected server does not support retryable reads'')
       \<noteq> ''Server selection failed without error''"
  by (simp add: model_defs scenario_defs more_scenario_defs)

text \<open>
  Claim C7. When the session is in a transaction and the effective read preference of the
  operation (its own, or \<open>primary\<close> when it has none) is not \<open>primary\<close>, the pipeline calls
  its callback with a \<^verbatim>\<open>MongoTransactionError\<close> and leaves the session and the world as
  they were: no server selection was asked for and no attempt was made. For the
  coordinator, past the check of session support and with a session it accepts, the caller
  receives that error and the world differs only in the count of checks.
\<close>

theorem transaction_requires_primary:
  assumes "inTransaction s" and "effectiveReadPreference oper \<noteq> primary"
  shows "executeWithServerSelection d topo (Some s) oper w
           = (Callback (Some (transaction_readPreference_error (effectiveReadPreference oper))) None,
              Some s, w)
         \<and> error_class (transaction_readPreference_error (effectiveReadPreference oper))
             = MongoTransactionError
         \<and> (session oper = Some s \<and> hasSessionSupport topo \<and> \<not> hasEnded s
              \<and> (snapshotEnabled s \<longrightarrow> supportsSnapshotReads topo)
              \<and> \<not> shouldCheckForSessionSupport topo (sessionSupportChecks v) \<longrightarrow>
            executeOperation (Suc fuel) d topo oper v
              = Some (Callback_invoked
                        (Some (transaction_readPreference_error (effectiveReadPreference oper))) None,
                      Some s, v\<lparr>sessionSupportChecks := Suc (sessionSupportChecks v)\<rparr>))"
proof -
  have p: "\<And>w. executeWithServerSelection d topo (Some s) oper w
           = (Callback (Some (transaction_readPreference_error (effectiveReadPreference oper))) None,
              Some s, w)"
    using assms by (simp add: executeWithServerSelection_def Let_def)
  have c: "error_class (transaction_readPreference_error (effectiveReadPreference oper))
             = MongoTransactionError"
    by (simp add: transaction_readPreference_error_def new_error_def)
  have t: "session oper = Some s \<and> hasSessionSupport topo \<and> \<not> hasEnded s
              \<and> (snapshotEnabled s \<longrightarrow> supportsSnapshotReads topo)
              \<and> \<not> shouldCheckForSessionSupport topo (sessionSupportChecks v) \<longrightarrow>
            executeOperation (Suc fuel) d topo oper v
              = Some (Callback_invoked
                        (Some (transaction_readPreference_error (effectiveReadPreference oper))) None,
                      Some s, v\<lparr>sessionSupportChecks := Suc (sessionSupportChecks v)\<rparr>)"
    by (auto simp: checkForSessionSupport_def acquireSession_def p teardown_not_owned
        maybePromise_callback_def)
  from p c t show ?thesis by simp
qed

theorem transaction_requires_primary_witness:
  "inTransaction session_in_transaction \<and> effectiveReadPreference secondary_read \<noteq> primary
   \<and> executeWithServerSelection scenario_deps retryWrites_topology (Some session_in_transaction)
        secondary_read initial_world
      = (Callback (Some (new_error MongoTransactionError
           ''Read preference in a transaction must be primary, not: secondary'')) None,
         Some session_in_transaction, initial_world)
   \<and> executeOperation (Suc 0) scenario_deps retryWrites_topology secondary_read initial_world
      = Some (Callback_invoked (Some (new_error MongoTransactionError
                ''Read preference in a transaction must be primary, not: secondary'')) None,
              Some session_in_transaction, initial_world\<lparr>sessionSupportChecks := 1\<rparr>)"
proof -
  have a: "inTransaction session_in_transaction"
    by (simp add: session_in_transaction_def explicit_session_def)
  have b: "effectiveReadPreference secondary_read \<noteq> primary"
    by (simp add: effectiveReadPreference_def secondary_read_def)
  have c: "session secondary_read = Some session_in_transaction
           \<and> hasSessionSupport retryWrites_topology \<and> \<not> hasEnded session_in_transaction
           \<and> (snapshotEnabled session_in_transaction \<longrightarrow> supportsSnapshotReads retryWrites_topology)
           \<and> \<not> shouldCheckForSessionSupport retryWrites_topology (sessionSupportChecks initial_world)"
    by (simp add: secondary_read_def retryWrites_topology_def session_in_transaction_def
        explicit_session_def)
  have e: "transaction_readPreference_error (effectiveReadPreference secondary_read)
           = new_error MongoTransactionError
               ''Read preference in a transaction must be primary, not: secondary''"
    by (simp add: effectiveReadPreference_def secondary_read_def transaction_readPreference_error_def)
  have i: "sessionSupportChecks initial_world = 0" by (simp add: initial_world_def)
  show ?thesis
    using a b c transaction_requires_primary [OF a b, of scenario_deps retryWrites_topology
        initial_world initial_world 0]
    unfolding e i by simp
qed

text \<open>
  Claim C8, as amended. Past the check of session support, with an explicit session: the
  caller receives \<^verbatim>\<open>MongoCompatibilityError\<close> when the topology has no session support,
  whatever the state of the session; \<^verbatim>\<open>MongoExpiredSessionError\<close> when the topology
  supports sessions and the session has ended; \<^verbatim>\<open>MongoCompatibilityError\<close> when the
  topology supports sessions, the session has not ended, it asks for snapshot reads and
  the topology cannot serve them. In each case nothing else happened: the world differs
  only in the count of checks. And an execution mints a session exactly when the topology
  supports sessions and the operation has none.
\<close>

theorem session_acquisition_fails_fast:
  assumes settled: "\<not> shouldCheckForSessionSupport topo (sessionSupportChecks w)"
  shows "(session oper = Some s \<and> \<not> hasSessionSupport topo \<longrightarrow>
            executeOperation (Suc fuel) d topo oper w
              = Some (Callback_invoked (Some (new_error MongoCompatibilityError
                        ''Current topology does not support sessions'')) None,
                      Some s, w\<lparr>sessionSupportChecks := Suc (sessionSupportChecks w)\<rparr>))
         \<and> (session oper = Some s \<and> hasSessionSupport topo \<and> hasEnded s \<longrightarrow>
            executeOperation (Suc fuel) d topo oper w
              = Some (Callback_invoked (Some (new_error MongoExpiredSessionError
                        ''Use of expired sessions is not permitted'')) None,
                      Some s, w\<lparr>sessionSupportChecks := Suc (sessionSupportChecks w)\<rparr>))
         \<and> (session oper = Some s \<and> hasSessionSupport topo \<and> \<not> hasEnded s
              \<and> snapshotEnabled s \<and> \<not> supportsSnapshotReads topo \<longrightarrow>
            executeOperation (Suc fuel) d topo oper w
              = Some (Callback_invoked (Some (new_error MongoCompatibilityError
                        ''Snapshot reads require MongoDB 5.0 or later'')) None,
                      Some s, w\<lparr>sessionSupportChecks := Suc (sessionSupportChecks w)\<rparr>))
         \<and> (\<exists>out sess' w'. executeOperation (Suc fuel) d topo oper w = Some (out, sess', w')
              \<and> length (filter is_startSession (events_since w w'))
                  = (if hasSessionSupport topo \<and> session oper = None then 1 else 0))"
proof -
  let ?w1 = "w\<lparr>sessionSupportChecks := Suc (sessionSupportChecks w)\<rparr>"
  note eq = executeOperation_settled [OF settled, of fuel d oper]
  have fast: "session oper = Some s \<Longrightarrow> acquireSession topo oper ?w1 =
      (if \<not> hasSessionSupport topo
       then Inl (new_error MongoCompatibilityError ''Current topology does not support sessions'')
       else if hasEnded s
       then Inl (new_error MongoExpiredSessionError ''Use of expired sessions is not permitted'')
       else if snapshotEnabled s \<and> \<not> supportsSnapshotReads topo
       then Inl (new_error MongoCompatibilityError ''Snapshot reads require MongoDB 5.0 or later'')
       else Inr (Some s, None, ?w1))"
    by (simp add: acquireSession_def)
  have mint: "\<exists>out sess' w'. executeOperation (Suc fuel) d topo oper w = Some (out, sess', w')
              \<and> length (filter is_startSession (events_since w w'))
                  = (if hasSessionSupport topo \<and> session oper = None then 1 else 0)"
  proof (cases "acquireSession topo oper ?w1")
    case (Inl err)
    then have "session oper \<noteq> None"
      by (auto simp: acquireSession_def fresh_Symbol_def startSession_def
          split: if_splits option.splits)
    with Inl show ?thesis
      unfolding eq by (simp add: events_since_def)
  next
    case (Inr r)
    then obtain sess ow w2 where acq: "acquireSession topo oper ?w1 = Inr (sess, ow, w2)"
      by (cases r) auto
    obtain out sess' w' where
      td: "teardown ow (executeWithServerSelection d topo sess oper w2) = (out, sess', w')"
      by (cases "teardown ow (executeWithServerSelection d topo sess oper w2)") auto
    from body_lifecycle [OF acq td] obtain evs where
      evs: "trace w' = trace w @ evs"
      and l: "lifecycle oper (symbols w) (hasSessionSupport topo \<and> session oper = None) evs sess'"
      by auto
    from evs have "events_since w w' = evs" by (rule events_since_append)
    with l have "length (filter is_startSession (events_since w w'))
                  = (if hasSessionSupport topo \<and> session oper = None then 1 else 0)"
      by (simp add: lifecycle_def split: if_splits)
    with acq td show ?thesis
      unfolding eq by simp
  qed
  from fast mint show ?thesis
    unfolding eq by simp
qed

theorem session_acquisition_fails_fast_witness:
  "\<not> shouldCheckForSessionSupport retryWrites_topology (sessionSupportChecks initial_world)
   \<and> session write_with_ended_session = Some ended_session
   \<and> hasSessionSupport retryWrites_topology \<and> hasEnded ended_session
   \<and> executeOperation (Suc 0) scenario_deps retryWrites_topology write_with_ended_session
        initial_world
      = Some (Callback_invoked (Some (new_error MongoExpiredSessionError
                ''Use of expired sessions is not permitted'')) None,
              Some ended_session, initial_world\<lparr>sessionSupportChecks := 1\<rparr>)"
proof -
  have a: "\<not> shouldCheckForSessionSupport retryWrites_topology (sessionSupportChecks initial_world)"
    by (simp add: retryWrites_topology_def)
  have b: "session write_with_ended_session = Some ended_session"
    by (simp add: write_with_ended_session_def)
  have c: "hasSessionSupport retryWrites_topology \<and> hasEnded ended_session"
    by (simp add: retryWrites_topology_def ended_session_def)
  show ?thesis
    using a b c session_acquisition_fails_fast [OF a, of write_with_ended_session ended_session 0
        scenario_deps]
    by (simp add: initial_world_def)
qed

text \<open>
  Claim C8 as stated fails: an explicit session that has ended, on a topology without
  session support, gets \<^verbatim>\<open>MongoCompatibilityError\<close>, not \<^verbatim>\<open>MongoExpiredSessionError\<close>.
\<close>

theorem ended_session_without_session_support:
  "session write_with_ended_session = Some ended_session \<and> hasEnded ended_session
   \<and> executeOperation (Suc 0) scenario_deps topology_without_sessions write_with_ended_session
        initial_world
      = Some (Callback_invoked (Some (new_error MongoCompatibilityError
                ''Current topology does not support sessions'')) None,
              Some ended_session, initial_world\<lparr>sessionSupportChecks := 1\<rparr>)
   \<and> error_class (new_error MongoCompatibilityError ''Current topology does not support sessions'')
       \<noteq> MongoExpiredSessionError"
  by (simp add: coordinator_defs scenario_defs more_scenario_defs new_error_def)

text \<open>
  Claim C9. In any execution that returns, whatever its exit: as many sessions are ended
  as are started, at most one; with a session on the operation, explicit or minted by
  another execution, whatever its owner tag, none is ended and the session's \<open>ended\<close> flag
  is what it was; and when a session is ended, the operation had none and the session
  ended is the one tagged with the owner value minted here. The teardown decides by the
  tags alone: it ends the session iff its owner tag is present and equals the remembered
  one.
\<close>

theorem implicit_session_ended_iff_created:
  assumes "executeOperation fuel d topo oper w = Some (out, sess', w')"
  shows "count_list (events_since w w') Ev_endSession
           = length (filter is_startSession (events_since w w'))
         \<and> length (filter is_startSession (events_since w w')) \<le> 1
         \<and> (session oper \<noteq> None \<longrightarrow>
              count_list (events_since w w') Ev_endSession = 0
              \<and> map_option hasEnded sess' = map_option hasEnded (session oper))
         \<and> (count_list (events_since w w') Ev_endSession = 1 \<longrightarrow>
              session oper = None \<and> map_option hasEnded sess' = Some True
              \<and> map_option owner sess' = Some (Some (Symbol (symbols w))))
         \<and> fst (snd (teardown ow (c, Some s, w0)))
             = Some (if owner s \<noteq> None \<and> owner s = ow then s\<lparr>hasEnded := True\<rparr> else s)"
proof -
  from executeOperation_lifecycle [OF assms refl] obtain evs minted where
    evs: "trace w' = trace w @ evs" and l: "lifecycle oper (symbols w) minted evs sess'"
    by blast
  from evs have e: "events_since w w' = evs" by (rule events_since_append)
  have t: "fst (snd (teardown ow (c, Some s, w0)))
             = Some (if owner s \<noteq> None \<and> owner s = ow then s\<lparr>hasEnded := True\<rparr> else s)"
    by (auto simp: teardown_def ownedHere_def endSession_def split: completion.splits)
  from l e t show ?thesis
    by (cases minted) (simp_all add: lifecycle_def)
qed

theorem implicit_session_ended_iff_created_witness:
  "executeOperation (Suc 0) scenario_deps retryWrites_topology implicit_write initial_world
   = Some (Callback_invoked None (Some write_result),
           Some (minted_session\<lparr>txnNumber := 1, hasEnded := True\<rparr>), implicit_run_world)
   \<and> count_list (events_since initial_world implicit_run_world) Ev_endSession = 1
   \<and> length (filter is_startSession (events_since initial_world implicit_run_world)) = 1
   \<and> session implicit_write = None
   \<and> hasEnded (minted_session\<lparr>txnNumber := 1, hasEnded := True\<rparr>)
   \<and> owner (minted_session\<lparr>txnNumber := 1, hasEnded := True\<rparr>)
       = Some (Symbol (symbols initial_world))"
  using implicit_run implicit_session_ended_iff_created [OF implicit_run]
  by (simp add: implicit_run_world_def initial_world_def events_since_def implicit_write_def
      minted_session_def)

text \<open>
  Claim C10. Past the check of session support and the acquisition of the session: when
  the pipeline throws, the callback of the caller is not called, with the thrown value or
  with anything else, and no exception leaves the coordinator. The session is ended when
  the coordinator minted it; otherwise the session and the world are as the pipeline left
  them.
\<close>

theorem synchronous_throw_never_reaches_callback:
  assumes settled: "\<not> shouldCheckForSessionSupport topo (sessionSupportChecks w)"
    and acq: "acquireSession topo oper (w\<lparr>sessionSupportChecks := Suc (sessionSupportChecks w)\<rparr>)
                = Inr (sess, ow, w0)"
    and thr: "executeWithServerSelection d topo sess oper w0 = (Throws x, sess1, w1)"
  shows "executeOperation (Suc fuel) d topo oper w
           = Some (Callback_not_invoked,
                   if session oper = None \<and> hasSessionSupport topo
                   then map_option (\<lambda>s. s\<lparr>hasEnded := True\<rparr>) sess1 else sess1,
                   if session oper = None \<and> hasSessionSupport topo
                   then w1\<lparr>trace := trace w1 @ [Ev_endSession]\<rparr> else w1)"
  using acq
proof (cases rule: acquireSession_cases)
  case minted
  let ?s = "fst (startSession topo (Symbol (symbols w)) (w\<lparr>sessionSupportChecks := Suc (sessionSupportChecks w)\<rparr>))"
  have own: "owner ?s = Some (Symbol (symbols w))" by (simp add: startSession_def)
  from thr minted pipeline_sess obtain s1 n where
    s1: "sess1 = Some s1" and sb: "same_but_pin n ?s s1"
    by fastforce
  from sb own have "owner s1 = Some (Symbol (symbols w))" by (simp add: same_but_pin_def)
  with settled acq thr minted s1 show ?thesis
    by (simp add: executeOperation_settled [OF settled] teardown_owned del: executeOperation.simps)
next
  case (given s)
  with settled acq thr show ?thesis
    by (simp add: executeOperation_settled [OF settled] teardown_not_owned del: executeOperation.simps)
next
  case none
  with settled acq thr show ?thesis
    by (simp add: executeOperation_settled [OF settled] teardown_not_owned del: executeOperation.simps)
qed

theorem synchronous_throw_never_reaches_callback_witness:
  "\<not> shouldCheckForSessionSupport retryWrites_topology (sessionSupportChecks initial_world)
   \<and> executeWithServerSelection scenario_deps retryWrites_topology (Some minted_session)
        throwing_write minted_world
      = (Throws TypeError, Some (minted_session\<lparr>txnNumber := 1\<rparr>), thrown_world)
   \<and> executeOperation (Suc 0) scenario_deps retryWrites_topology throwing_write initial_world
      = Some (Callback_not_invoked, Some (minted_session\<lparr>txnNumber := 1, hasEnded := True\<rparr>),
              thrown_world\<lparr>trace := trace thrown_world @ [Ev_endSession]\<rparr>)"
proof -
  have a: "\<not> shouldCheckForSessionSupport retryWrites_topology (sessionSupportChecks initial_world)"
    by (simp add: retryWrites_topology_def)
  have e: "acquireSession retryWrites_topology throwing_write
             (initial_world\<lparr>sessionSupportChecks := Suc (sessionSupportChecks initial_world)\<rparr>)
           = Inr (Some minted_session, Some (Symbol 0), minted_world)"
    by (simp add: coordinator_defs scenario_defs more_scenario_defs)
  show ?thesis
    using a throwing_run synchronous_throw_never_reaches_callback [OF a e throwing_run, of 0]
    by (simp add: throwing_write_def implicit_write_def retryWrites_topology_def)
qed

end
